theory Spec2Isabelle
  imports Complex_Main "HOL-Library.Word"
begin

section \<open>Numbers\<close>

text \<open>
  The sketch computes with \<^verbatim>\<open>float\<close>, \<^verbatim>\<open>long\<close> and \<^verbatim>\<open>int16_t\<close>.
  \<^item> A finite \<^verbatim>\<open>float\<close> is a \<open>real\<close>: the arithmetic of finite values is taken
    exact, so rounding error and overflow to infinity of finite operations are not part
    of this development.
  \<^item> HOL's \<open>x / 0\<close> is \<open>0\<close>, the sketch's is an infinity or a NaN. Wherever the sketch can
    divide by zero (the scale factors of the calibration, the read of a channel whose
    scale is zero) the result is a \<open>cfloat\<close>, which keeps the non-finite values apart.
    \<open>Infty\<close> is an infinity of either sign; the sign of a zero is not tracked.
  \<^item> \<^verbatim>\<open>long\<close> results of \<^verbatim>\<open>round\<close> are \<open>int\<close> (a value beyond 32 bits is undefined
    in C); the narrowing to \<^verbatim>\<open>int16_t\<close> wraps, so these globals are \<open>16 word\<close>, read
    with \<open>sint\<close>.
\<close>

datatype cfloat = Fin real | Infty | NaN

definition fdiv :: "real \<Rightarrow> real \<Rightarrow> cfloat" where
  \<comment> \<open>\<^verbatim>\<open>a / b\<close> of two finite floats\<close>
  "fdiv a b = (if b \<noteq> 0 then Fin (a / b) else if a \<noteq> 0 then Infty else NaN)"

fun fdivc :: "real \<Rightarrow> cfloat \<Rightarrow> cfloat" where
  \<comment> \<open>\<^verbatim>\<open>a / s\<close>, \<open>a\<close> finite\<close>
  "fdivc a (Fin b) = fdiv a b"
| "fdivc a Infty = Fin 0"
| "fdivc a NaN = NaN"

fun fmulc :: "cfloat \<Rightarrow> real \<Rightarrow> cfloat" where
  \<comment> \<open>\<^verbatim>\<open>x * k\<close>, \<open>k\<close> finite\<close>
  "fmulc (Fin a) k = Fin (a * k)"
| "fmulc Infty k = (if k \<noteq> 0 then Infty else NaN)"
| "fmulc NaN k = NaN"

definition cround :: "real \<Rightarrow> int" where
  \<comment> \<open>Modelled from the spec: \<^verbatim>\<open>round\<close> comes from the Arduino core, which is not part of
      the sketch; the spec has it round half away from zero. The core's macro is
      \<^verbatim>\<open>((x)>=0?(long)((x)+0.5):(long)((x)-0.5))\<close>, the same function.\<close>
  "cround x = (if x \<ge> 0 then \<lfloor>x + 1 / 2\<rfloor> else \<lceil>x - 1 / 2\<rceil>)"

type_synonym int16_t = "16 word"

definition roundWeightToDecagram :: "real \<Rightarrow> real" where
  "roundWeightToDecagram weight = real_of_int (cround (weight * 100)) / 100"

definition roundToMillimeter :: "real \<Rightarrow> int16_t" where
  "roundToMillimeter v = word_of_int (cround v)"

section \<open>Constants\<close>

text \<open>
  The geometry and the correction factor are compile-time constants of the sketch. They
  are a parameter here, so that properties can be stated for other configurations;
  \<open>sketch_config\<close> holds the values of the source.
\<close>

record config =
  BASE_WIDTH :: real
  BASE_LENGTH :: real
  WING_PEG_DIST :: real
  CORRECTION_FACTOR :: real

definition sketch_config :: config where
  "sketch_config = \<lparr> BASE_WIDTH = 270, BASE_LENGTH = 250, WING_PEG_DIST = 120,
     CORRECTION_FACTOR = 4.71192 \<rparr>"

definition SMOOTHING_SAMPLES :: nat where
  "SMOOTHING_SAMPLES = 5"

section \<open>The load-cell channel\<close>

text \<open>
  Modelled from the spec: the HX711 driver is a library outside the sketch. The spec gives
  a channel a zero offset captured by tare and a scale factor, and a reported weight of
  \<open>(raw_reading - zero_offset) / scale_factor\<close>. The averaged raw reading of the converter
  is an input of every operation that reads a channel.
\<close>

record HX711 =
  OFFSET :: int
  SCALE :: cfloat

definition tare :: "int \<Rightarrow> HX711 \<Rightarrow> HX711" where
  \<comment> \<open>Modelled from the spec: \<^verbatim>\<open>HX711::tare\<close>, which captures the current reading as the
      zero offset.\<close>
  "tare reading h = h\<lparr>OFFSET := reading\<rparr>"

definition set_scale :: "cfloat \<Rightarrow> HX711 \<Rightarrow> HX711" where
  \<comment> \<open>Modelled from the spec: \<^verbatim>\<open>HX711::set_scale\<close>, which stores the scale factor.\<close>
  "set_scale s h = h\<lparr>SCALE := s\<rparr>"

definition get_value :: "HX711 \<Rightarrow> int \<Rightarrow> real" where
  \<comment> \<open>Modelled from the spec: \<^verbatim>\<open>HX711::get_value\<close>, the averaged raw reading relative to
      the zero offset.\<close>
  "get_value h reading = real_of_int (reading - OFFSET h)"

definition get_units :: "HX711 \<Rightarrow> int \<Rightarrow> cfloat" where
  \<comment> \<open>Modelled from the spec: \<^verbatim>\<open>HX711::get_units\<close>, the reported weight
      \<open>(raw_reading - zero_offset) / scale_factor\<close>.\<close>
  "get_units h reading = fdivc (get_value h reading) (SCALE h)"

section \<open>Serial output\<close>

text \<open>
  What the sketch prints on the serial port is a list of tokens, in order: a text, a
  float, an integer, or the end of a line (\<^verbatim>\<open>println\<close> is the token and \<open>EOL\<close>). The
  number of decimals asked of a float is layout and is not kept. The display is
  write-only and is left out.
\<close>

datatype out = Txt string | Num cfloat | IntV int | EOL

section \<open>Global state\<close>

text \<open>
  The globals of the sketch, and the two ends of the serial port: \<open>serialIn\<close> holds the
  bytes received and not yet read, \<open>serialOut\<close> everything printed so far. Time
  (\<^verbatim>\<open>millis\<close>, \<^verbatim>\<open>lastReadTime\<close>, the debounce clock) is not kept: whether an interval has
  elapsed is an input of \<open>loop\<close>.
\<close>

type_synonym reads = "int \<times> int \<times> int \<times> int"

record state =
  scale1 :: HX711
  scale2 :: HX711
  scale3 :: HX711
  scale4 :: HX711
  calibration_factor1 :: cfloat
  calibration_factor2 :: cfloat
  calibration_factor3 :: cfloat
  calibration_factor4 :: cfloat
  continuousMode :: bool
  taraEffettuata :: bool
  menuActive :: bool
  menuPosition :: nat
  weight1Samples :: "real list"
  weight2Samples :: "real list"
  weight3Samples :: "real list"
  weight4Samples :: "real list"
  sampleIndex :: nat
  totalWeight :: real
  cogX :: int16_t
  cogY :: int16_t
  wingCogX :: int16_t
  lateralCogDiff :: int16_t
  cogPercentage :: int16_t
  serialIn :: string
  serialOut :: "out list"

definition print :: "out list \<Rightarrow> state \<Rightarrow> state" where
  "print ts st = st\<lparr>serialOut := serialOut st @ ts\<rparr>"

definition initial_state :: state where
  \<comment> \<open>the initialisers of the globals; a fresh \<^verbatim>\<open>HX711\<close> has offset 0 and scale 1\<close>
  "initial_state = \<lparr>
     scale1 = \<lparr>OFFSET = 0, SCALE = Fin 1\<rparr>,
     scale2 = \<lparr>OFFSET = 0, SCALE = Fin 1\<rparr>,
     scale3 = \<lparr>OFFSET = 0, SCALE = Fin 1\<rparr>,
     scale4 = \<lparr>OFFSET = 0, SCALE = Fin 1\<rparr>,
     calibration_factor1 = Fin (-411979.59),
     calibration_factor2 = Fin (-237715.98),
     calibration_factor3 = Fin (-350986.41),
     calibration_factor4 = Fin (-533862.25),
     continuousMode = True,
     taraEffettuata = False,
     menuActive = False,
     menuPosition = 0,
     weight1Samples = replicate SMOOTHING_SAMPLES 0,
     weight2Samples = replicate SMOOTHING_SAMPLES 0,
     weight3Samples = replicate SMOOTHING_SAMPLES 0,
     weight4Samples = replicate SMOOTHING_SAMPLES 0,
     sampleIndex = 0,
     totalWeight = 0,
     cogX = 0,
     cogY = 0,
     wingCogX = 0,
     lateralCogDiff = 0,
     cogPercentage = 0,
     serialIn = [],
     serialOut = [] \<rparr>"

section \<open>Smoothing\<close>

text \<open>
  \<^verbatim>\<open>smoothValue\<close> writes the slot and returns the mean of the window; the model returns the
  mean and the window. The windows have \<open>SMOOTHING_SAMPLES\<close> slots and the index stays
  below it (it starts at 0 and \<^verbatim>\<open>loop\<close> advances it modulo \<open>SMOOTHING_SAMPLES\<close>). A list
  of another length, or an index beyond it, is no state of the sketch; a theorem that
  depends on the contents of a window says what the window is.
\<close>

definition smoothValue :: "real \<Rightarrow> real list \<Rightarrow> nat \<Rightarrow> real \<times> real list" where
  "smoothValue newValue samples index =
     (let samples' = samples[index := newValue];
          sum = foldl (\<lambda>s i. s + samples' ! i) 0 [0..<SMOOTHING_SAMPLES]
      in (sum / real SMOOTHING_SAMPLES, samples'))"

section \<open>The acquisition cycle\<close>

text \<open>
  \<^verbatim>\<open>updateWeightData\<close> in three parts. \<open>weighCells\<close> is the source up to the four rounded
  weights: correction, smoothing, rounding. \<open>computeCoG\<close> is the rest: the total, the
  debug lines and the centre of gravity. \<open>updateWeightData\<close> reads the four channels and
  runs both. A channel that reads an infinity or a NaN (its scale factor is zero or not
  finite) sends that value into the \<^verbatim>\<open>(long)\<close> conversion of \<^verbatim>\<open>round\<close>, which C leaves
  undefined: the cycle has no result then.
\<close>

definition weighCells ::
  "config \<Rightarrow> real \<Rightarrow> real \<Rightarrow> real \<Rightarrow> real \<Rightarrow> state \<Rightarrow> (real \<times> real \<times> real \<times> real) \<times> state" where
  "weighCells cfg rawWeight1 rawWeight2 rawWeight3 rawWeight4 st =
     (let correctedWeight1 = rawWeight1 * CORRECTION_FACTOR cfg;
          correctedWeight2 = rawWeight2 * CORRECTION_FACTOR cfg;
          correctedWeight3 = rawWeight3 * CORRECTION_FACTOR cfg;
          correctedWeight4 = rawWeight4 * CORRECTION_FACTOR cfg;
          (s1, samples1) = smoothValue correctedWeight1 (weight1Samples st) (sampleIndex st);
          (s2, samples2) = smoothValue correctedWeight2 (weight2Samples st) (sampleIndex st);
          (s3, samples3) = smoothValue correctedWeight3 (weight3Samples st) (sampleIndex st);
          (s4, samples4) = smoothValue correctedWeight4 (weight4Samples st) (sampleIndex st)
      in ((roundWeightToDecagram s1, roundWeightToDecagram s2,
           roundWeightToDecagram s3, roundWeightToDecagram s4),
          st\<lparr>weight1Samples := samples1, weight2Samples := samples2,
             weight3Samples := samples3, weight4Samples := samples4\<rparr>))"

definition computeCoG ::
  "config \<Rightarrow> real \<times> real \<times> real \<times> real \<Rightarrow> real \<times> real \<times> real \<times> real \<Rightarrow> state \<Rightarrow> state" where
  "computeCoG cfg raws weights st =
     (case raws of (rawWeight1, rawWeight2, rawWeight3, rawWeight4) \<Rightarrow>
      case weights of (weight1, weight2, weight3, weight4) \<Rightarrow>
      let total = weight1 + weight2 + weight3 + weight4;
          st1 = print
            [Txt ''Raw Weights: '', Num (Fin rawWeight1), Txt '' + '', Num (Fin rawWeight2),
             Txt '' + '', Num (Fin rawWeight3), Txt '' + '', Num (Fin rawWeight4), Txt '' = '',
             Num (Fin (rawWeight1 + rawWeight2 + rawWeight3 + rawWeight4)), Txt '' kg'', EOL,
             Txt ''Corrected Weights: '', Num (Fin weight1), Txt '' + '', Num (Fin weight2),
             Txt '' + '', Num (Fin weight3), Txt '' + '', Num (Fin weight4), Txt '' = '',
             Num (Fin total), Txt '' kg'', EOL]
            (st\<lparr>totalWeight := total\<rparr>)
      in if total > 0.01 then
           (let X1 = - BASE_WIDTH cfg / 2;
                X2 = BASE_WIDTH cfg / 2;
                X3 = - BASE_WIDTH cfg / 2;
                X4 = BASE_WIDTH cfg / 2;
                Y1 = 0;
                Y2 = 0;
                Y3 = BASE_LENGTH cfg;
                Y4 = BASE_LENGTH cfg;
                cogX_centered = (weight1 * X1 + weight2 * X2 + weight3 * X3 + weight4 * X4) / total;
                lateral = roundToMillimeter cogX_centered;
                cogY_fromLE = (weight1 * Y1 + weight2 * Y2 + weight3 * Y3 + weight4 * Y4) / total;
                longitudinal = roundToMillimeter cogY_fromLE;
                st2 = st1\<lparr>lateralCogDiff := lateral, cogY := longitudinal,
                        wingCogX := longitudinal\<rparr>;
                st3 = (if WING_PEG_DIST cfg > 0
                       then st2\<lparr>cogPercentage :=
                              word_of_int (cround (real_of_int (sint (wingCogX st2))
                                                     / WING_PEG_DIST cfg * 100))\<rparr>
                       else st2)
            in print
                 ([Txt ''Lateral balance: ''] @
                  (if 0 <s lateralCogDiff st3 then [Txt ''+''] else []) @
                  [IntV (sint (lateralCogDiff st3)), Txt '' mm from center'', EOL,
                   Txt ''Wing CG: '', IntV (sint (wingCogX st3)),
                   Txt '' mm from Leading Edge'', EOL])
                 st3)
         else st1\<lparr>cogX := 0, cogY := 0, wingCogX := 0, lateralCogDiff := 0,
                cogPercentage := 0\<rparr>)"

fun the_fin :: "cfloat \<Rightarrow> real option" where
  "the_fin (Fin x) = Some x"
| "the_fin Infty = None"
| "the_fin NaN = None"

definition read_units ::
  "reads \<Rightarrow> state \<Rightarrow> (real \<times> real \<times> real \<times> real) option" where
  \<comment> \<open>\<^verbatim>\<open>get_units\<close> of the four channels, when all four are finite\<close>
  "read_units adc st =
     (case adc of (a1, a2, a3, a4) \<Rightarrow>
        Option.bind (the_fin (get_units (scale1 st) a1)) (\<lambda>rawWeight1.
        Option.bind (the_fin (get_units (scale2 st) a2)) (\<lambda>rawWeight2.
        Option.bind (the_fin (get_units (scale3 st) a3)) (\<lambda>rawWeight3.
        Option.bind (the_fin (get_units (scale4 st) a4)) (\<lambda>rawWeight4.
        Some (rawWeight1, rawWeight2, rawWeight3, rawWeight4))))))"

definition cellWeights ::
  "config \<Rightarrow> reads \<Rightarrow> state \<Rightarrow> (real \<times> real \<times> real \<times> real) option" where
  \<comment> \<open>the locals \<^verbatim>\<open>weight1\<close> .. \<^verbatim>\<open>weight4\<close> of a cycle\<close>
  "cellWeights cfg adc st =
     (case read_units adc st of None \<Rightarrow> None
      | Some (r1, r2, r3, r4) \<Rightarrow> Some (fst (weighCells cfg r1 r2 r3 r4 st)))"

definition updateWeightData :: "config \<Rightarrow> reads \<Rightarrow> state \<Rightarrow> state option" where
  "updateWeightData cfg adc st =
     (case read_units adc st of None \<Rightarrow> None
      | Some (r1, r2, r3, r4) \<Rightarrow>
          (case weighCells cfg r1 r2 r3 r4 st of (weights, st') \<Rightarrow>
             Some (computeCoG cfg (r1, r2, r3, r4) weights st')))"

section \<open>Tare, the menu and its screens\<close>

text \<open>
  The buttons and the display are the operator's side of the device. Of the menu the
  model keeps what reaches the globals: the position, the \<open>menuActive\<close> flag, and the calls of
  \<^verbatim>\<open>tareScales\<close>, \<^verbatim>\<open>showCGView\<close> and \<^verbatim>\<open>showLateralBalance\<close>. A stay in the menu is the list of
  presses made before K4 leaves it. \<open>PressK1 rds nested\<close> is K1 on the selected entry,
  with the channel readings the selected screen takes (one set for the tare, one set for
  each refresh of a view before K4 leaves the view) and, for the tare, the presses made in
  the menu that \<^verbatim>\<open>tareScales\<close> opens when K4 is pressed on its last screen. A tare
  without a reading does not return.
\<close>

datatype menu_input = PressK2 | PressK3 | PressK1 "reads list" "menu_input list"

definition MAIN_MENU_ITEMS :: nat where
  "MAIN_MENU_ITEMS = 3"

definition zeroSamples :: "real list \<Rightarrow> real list" where
  \<comment> \<open>\<^verbatim>\<open>for (j = 0; j < SMOOTHING_SAMPLES; j++) samples[j] = 0\<close>\<close>
  "zeroSamples samples = foldl (\<lambda>xs j. xs[j := 0]) samples [0..<SMOOTHING_SAMPLES]"

definition tareCore :: "reads \<Rightarrow> state \<Rightarrow> state" where
  \<comment> \<open>\<^verbatim>\<open>tareScales\<close> up to \<^verbatim>\<open>taraEffettuata = true\<close>\<close>
  "tareCore rd st =
     (case rd of (a1, a2, a3, a4) \<Rightarrow>
        st\<lparr>scale1 := tare a1 (scale1 st), scale2 := tare a2 (scale2 st),
           scale3 := tare a3 (scale3 st), scale4 := tare a4 (scale4 st),
           weight1Samples := zeroSamples (weight1Samples st),
           weight2Samples := zeroSamples (weight2Samples st),
           weight3Samples := zeroSamples (weight3Samples st),
           weight4Samples := zeroSamples (weight4Samples st),
           taraEffettuata := True\<rparr>)"

fun viewLoop :: "config \<Rightarrow> reads list \<Rightarrow> state \<Rightarrow> state option" where
  \<comment> \<open>the refresh loop of \<^verbatim>\<open>showCGView\<close> and of \<^verbatim>\<open>showLateralBalance\<close>\<close>
  "viewLoop cfg [] st = Some st"
| "viewLoop cfg (rd # rds) st = Option.bind (updateWeightData cfg rd st) (viewLoop cfg rds)"

fun showMainMenu :: "config \<Rightarrow> menu_input list \<Rightarrow> state \<Rightarrow> state option"
  and menuLoop :: "config \<Rightarrow> menu_input list \<Rightarrow> state \<Rightarrow> state option"
  and tareScales :: "config \<Rightarrow> reads \<Rightarrow> menu_input list \<Rightarrow> state \<Rightarrow> state option" where
  "showMainMenu cfg presses st =
     map_option (\<lambda>s. s\<lparr>menuActive := False\<rparr>)
       (menuLoop cfg presses (st\<lparr>menuActive := True, menuPosition := 0\<rparr>))"
| "menuLoop cfg [] st = Some st"
| "menuLoop cfg (PressK2 # presses) st =
     menuLoop cfg presses
       (st\<lparr>menuPosition := (if menuPosition st > 0 then menuPosition st - 1
                            else MAIN_MENU_ITEMS - 1)\<rparr>)"
| "menuLoop cfg (PressK3 # presses) st =
     menuLoop cfg presses (st\<lparr>menuPosition := (menuPosition st + 1) mod MAIN_MENU_ITEMS\<rparr>)"
| "menuLoop cfg (PressK1 rds nested # presses) st =
     Option.bind
       (if menuPosition st = 0 then
          (case rds of [] \<Rightarrow> None | rd # _ \<Rightarrow> tareScales cfg rd nested st)
        else if menuPosition st = 1 then viewLoop cfg rds st
        else if menuPosition st = 2 then viewLoop cfg rds st
        else Some st)
       (menuLoop cfg presses)"
| "tareScales cfg rd nested st =
     showMainMenu cfg nested ((tareCore rd st)\<lparr>menuActive := True, menuPosition := 0\<rparr>)"

section \<open>Calibration\<close>

text \<open>
  \<^verbatim>\<open>calibrateCellsViaSerial\<close> waits on the serial port twice. \<open>awaitTare\<close> reads bytes until
  a \<^verbatim>\<open>t\<close>; \<open>awaitKnownWeight\<close> reads lines until one parses to a positive number. Both
  return what is left of the input. When the input ends first, the sketch waits for
  ever: there is no result. \<^verbatim>\<open>String::toFloat\<close> belongs to the Arduino core and is a
  parameter.
\<close>

fun awaitTare :: "string \<Rightarrow> string option" where
  "awaitTare [] = None"
| "awaitTare (cmd # rest) = (if cmd = CHR ''t'' then Some rest else awaitTare rest)"

definition readStringUntil :: "char \<Rightarrow> string \<Rightarrow> string \<times> string" where
  \<comment> \<open>the bytes before the terminator, and the input after it\<close>
  "readStringUntil t s = (takeWhile (\<lambda>c. c \<noteq> t) s, drop 1 (dropWhile (\<lambda>c. c \<noteq> t) s))"

function awaitKnownWeight ::
  "(string \<Rightarrow> real) \<Rightarrow> string \<Rightarrow> out list \<Rightarrow> (real \<times> string \<times> out list) option" where
  "awaitKnownWeight toFloat s printed =
     (if s = [] then None
      else (let (input, rest) = readStringUntil CHR 0x0A s;
                knownWeight = toFloat input
            in if knownWeight > 0
               then Some (knownWeight, rest,
                          printed @ [Txt ''Weight entered: '', Num (Fin knownWeight),
                                     Txt '' kg'', EOL])
               else awaitKnownWeight toFloat rest
                      (printed @ [Txt ''Invalid weight. Try again: '', EOL])))"
  by pat_completeness auto
termination
proof (relation "measure (\<lambda>(toFloat, s, printed). length s)")
  show "wf (measure (\<lambda>(toFloat, s, printed). length s))"
    by simp
next
  fix toFloat :: "string \<Rightarrow> real" and s :: string and printed :: "out list"
    and x :: "string \<times> string" and input rest :: string and knownWeight :: real
  assume "s \<noteq> []" and "x = readStringUntil CHR 0x0A s" and "(input, rest) = x"
  then have "rest = drop 1 (dropWhile (\<lambda>c. c \<noteq> CHR 0x0A) s)"
    by (simp add: readStringUntil_def)
  moreover have "length (dropWhile (\<lambda>c. c \<noteq> CHR 0x0A) s) \<le> length s"
    by (rule length_dropWhile_le)
  ultimately have "length rest < length s"
    using \<open>s \<noteq> []\<close> by (cases "dropWhile (\<lambda>c. c \<noteq> CHR 0x0A) s") (auto simp: Suc_le_eq)
  then show "((toFloat, rest, printed @ [Txt ''Invalid weight. Try again: '', EOL]),
              (toFloat, s, printed)) \<in> measure (\<lambda>(toFloat, s, printed). length s)"
    by simp
qed

declare awaitKnownWeight.simps [simp del]

definition computeFactors :: "real \<Rightarrow> real \<Rightarrow> real \<Rightarrow> real \<Rightarrow> real \<Rightarrow> state \<Rightarrow> state" where
  \<comment> \<open>from \<^verbatim>\<open>float rawSum\<close> to the four \<^verbatim>\<open>set_scale\<close> calls and their report\<close>
  "computeFactors raw1 raw2 raw3 raw4 knownWeight st =
     (let rawSum = raw1 + raw2 + raw3 + raw4;
          st1 = st\<lparr>calibration_factor1 := fmulc (fmulc (fdiv raw1 rawSum) knownWeight) 4\<rparr>;
          st2 = st1\<lparr>calibration_factor2 := fmulc (fmulc (fdiv raw2 rawSum) knownWeight) 4\<rparr>;
          st3 = st2\<lparr>calibration_factor3 := fmulc (fmulc (fdiv raw3 rawSum) knownWeight) 4\<rparr>;
          st4 = st3\<lparr>calibration_factor4 := fmulc (fmulc (fdiv raw4 rawSum) knownWeight) 4\<rparr>;
          st5 = st4\<lparr>scale1 := set_scale (calibration_factor1 st4) (scale1 st4)\<rparr>;
          st6 = st5\<lparr>scale2 := set_scale (calibration_factor2 st5) (scale2 st5)\<rparr>;
          st7 = st6\<lparr>scale3 := set_scale (calibration_factor3 st6) (scale3 st6)\<rparr>;
          st8 = st7\<lparr>scale4 := set_scale (calibration_factor4 st7) (scale4 st7)\<rparr>
      in print
           [Txt ''New calibration factors:'', EOL,
            Txt ''Cell 1: '', Num (calibration_factor1 st8), EOL,
            Txt ''Cell 2: '', Num (calibration_factor2 st8), EOL,
            Txt ''Cell 3: '', Num (calibration_factor3 st8), EOL,
            Txt ''Cell 4: '', Num (calibration_factor4 st8), EOL]
           st8)"

record calibration_reads =
  tareReads :: reads    \<comment> \<open>the readings taken by the four \<^verbatim>\<open>tare()\<close>\<close>
  rawReads :: reads     \<comment> \<open>the readings taken by the four \<^verbatim>\<open>get_value(10)\<close>\<close>
  testReads :: reads    \<comment> \<open>the readings taken by the four \<^verbatim>\<open>get_units(5)\<close>\<close>

definition calibrateCellsViaSerial ::
  "(string \<Rightarrow> real) \<Rightarrow> calibration_reads \<Rightarrow> state \<Rightarrow> state option" where
  "calibrateCellsViaSerial toFloat rds st =
     (let prevMode = continuousMode st;
          st1 = print [Txt ''=== CALIBRATION PROCEDURE ==='', EOL,
                       Txt ''1. Remove all weight from platform'', EOL,
                       Txt ''2. Send 't' to tare cells'', EOL]
                  (st\<lparr>continuousMode := False\<rparr>)
      in Option.bind (awaitTare (serialIn st1)) (\<lambda>afterTare.
         (let (t1, t2, t3, t4) = tareReads rds;
              st2 = print [Txt ''Taring cells...'', EOL, Txt ''Tare completed.'', EOL,
                      Txt ''3. Place a known weight (e.g. 500g) at the center of the platform'',
                      EOL, Txt ''4. Enter weight in kg (e.g. 0.500): '', EOL]
                      (st1\<lparr>serialIn := afterTare,
                          scale1 := tare t1 (scale1 st1), scale2 := tare t2 (scale2 st1),
                          scale3 := tare t3 (scale3 st1), scale4 := tare t4 (scale4 st1)\<rparr>)
          in Option.bind (awaitKnownWeight toFloat (serialIn st2) [])
               (\<lambda>(knownWeight, afterWeight, printed).
                 (let (r1, r2, r3, r4) = rawReads rds;
                      (u1, u2, u3, u4) = testReads rds;
                      st3 = print (printed @ [Txt ''Reading raw values from cells...'', EOL])
                              (st2\<lparr>serialIn := afterWeight\<rparr>);
                      raw1 = get_value (scale1 st3) r1;
                      raw2 = get_value (scale2 st3) r2;
                      raw3 = get_value (scale3 st3) r3;
                      raw4 = get_value (scale4 st3) r4;
                      st4 = print [Txt ''Cell 1 raw value: '', Num (Fin raw1), EOL,
                                   Txt ''Cell 2 raw value: '', Num (Fin raw2), EOL,
                                   Txt ''Cell 3 raw value: '', Num (Fin raw3), EOL,
                                   Txt ''Cell 4 raw value: '', Num (Fin raw4), EOL,
                                   Txt ''Calculating calibration factors...'', EOL] st3;
                      st5 = computeFactors raw1 raw2 raw3 raw4 knownWeight st4;
                      measuredWeight1 = get_units (scale1 st5) u1;
                      measuredWeight2 = get_units (scale2 st5) u2;
                      measuredWeight3 = get_units (scale3 st5) u3;
                      measuredWeight4 = get_units (scale4 st5) u4;
                      st6 = print [Txt ''Testing calibration with reference weight...'', EOL,
                                   Txt ''Measured weights after calibration:'', EOL,
                                   Txt ''Cell 1: '', Num measuredWeight1, Txt '' kg'', EOL,
                                   Txt ''Cell 2: '', Num measuredWeight2, Txt '' kg'', EOL,
                                   Txt ''Cell 3: '', Num measuredWeight3, Txt '' kg'', EOL,
                                   Txt ''Cell 4: '', Num measuredWeight4, Txt '' kg'', EOL] st5
                  in Some (st6\<lparr>continuousMode := prevMode\<rparr>))))))"

section \<open>Serial commands\<close>

definition toggleContinuousMode :: "state \<Rightarrow> state" where
  "toggleContinuousMode st =
     (let st1 = st\<lparr>continuousMode := \<not> continuousMode st\<rparr>
      in print [Txt (if continuousMode st1 then ''Continuous reading on''
                     else ''Reading paused''), EOL] st1)"

definition showCalibrationFactors :: "state \<Rightarrow> state" where
  "showCalibrationFactors st =
     print [Txt ''===== CURRENT CALIBRATION FACTORS ====='', EOL,
            Txt ''Cell 1: '', Num (calibration_factor1 st), EOL,
            Txt ''Cell 2: '', Num (calibration_factor2 st), EOL,
            Txt ''Cell 3: '', Num (calibration_factor3 st), EOL,
            Txt ''Cell 4: '', Num (calibration_factor4 st), EOL,
            Txt ''======================================='', EOL] st"

definition setCorrectionFactor :: "real \<Rightarrow> state \<Rightarrow> state" where
  "setCorrectionFactor newFactor st =
     print [Txt ''New correction factor set: '', Num (Fin newFactor), EOL,
            Txt ''Copy this value and update the CORRECTION_FACTOR in updateWeightData()'', EOL,
            Txt ''Then recompile and upload the code'', EOL] st"

text \<open>
  The \<^verbatim>\<open>String\<close> methods used by \<^verbatim>\<open>checkSerialCommands\<close>. \<^verbatim>\<open>trim\<close> drops the white space
  of C's \<^verbatim>\<open>isspace\<close> at both ends; \<^verbatim>\<open>indexOf\<close> is \<open>-1\<close> when the character is absent.
\<close>

definition isspace :: "char \<Rightarrow> bool" where
  "isspace c = (c \<in> set [CHR '' '', CHR 0x09, CHR 0x0A, CHR 0x0B, CHR 0x0C, CHR 0x0D])"

definition trim :: "string \<Rightarrow> string" where
  "trim s = rev (dropWhile isspace (rev (dropWhile isspace s)))"

fun indexOf :: "char \<Rightarrow> string \<Rightarrow> int" where
  "indexOf c [] = - 1"
| "indexOf c (x # xs) =
     (if x = c then 0 else (let i = indexOf c xs in if i < 0 then - 1 else i + 1))"

definition substring :: "string \<Rightarrow> int \<Rightarrow> string" where
  "substring s from = drop (nat from) s"

text \<open>
  What a command may take from the world besides the line itself: the readings of the
  channels, the presses made in a menu it opens, the levels of the button pins. The
  numbers of the pins \<^verbatim>\<open>A2\<close>, \<^verbatim>\<open>A3\<close>, \<^verbatim>\<open>A5\<close>, \<^verbatim>\<open>A4\<close> are constants of the board.
\<close>

record env =
  toFloat :: "string \<Rightarrow> real"
  tareRd :: reads
  tareMenu :: "menu_input list"
  menuPresses :: "menu_input list"
  calReads :: calibration_reads
  debugReads :: reads
  pinLevels :: "int \<times> int \<times> int \<times> int"
  pinNumbers :: "int \<times> int \<times> int \<times> int"

definition debugRaw :: "env \<Rightarrow> state \<Rightarrow> state" where
  \<comment> \<open>the command \<^verbatim>\<open>d\<close>\<close>
  "debugRaw e st =
     (let (d1, d2, d3, d4) = debugReads e;
          (l1, l2, l3, l4) = pinLevels e;
          (BUTTON_K1, BUTTON_K2, BUTTON_K3, BUTTON_K4) = pinNumbers e
      in print [Txt ''Debug mode - Raw values:'', EOL,
                Txt ''Cell 1 raw: '', IntV d1, EOL,
                Txt ''Cell 2 raw: '', IntV d2, EOL,
                Txt ''Cell 3 raw: '', IntV d3, EOL,
                Txt ''Cell 4 raw: '', IntV d4, EOL,
                Txt ''Button states:'', EOL,
                Txt ''K1 (pin '', IntV BUTTON_K1, Txt ''): '', IntV l1, EOL,
                Txt ''K2 (pin '', IntV BUTTON_K2, Txt ''): '', IntV l2, EOL,
                Txt ''K3 (pin '', IntV BUTTON_K3, Txt ''): '', IntV l3, EOL,
                Txt ''K4 (pin '', IntV BUTTON_K4, Txt ''): '', IntV l4, EOL] st)"

definition setCellFactor :: "int \<Rightarrow> real \<Rightarrow> state \<Rightarrow> state" where
  \<comment> \<open>the \<^verbatim>\<open>switch (cellNumber)\<close> of the command \<^verbatim>\<open>c1,value\<close>\<close>
  "setCellFactor cellNumber v st =
     (if cellNumber = 1 then
        (let st1 = st\<lparr>calibration_factor1 := Fin v\<rparr>
         in st1\<lparr>scale1 := set_scale (calibration_factor1 st1) (scale1 st1)\<rparr>)
      else if cellNumber = 2 then
        (let st1 = st\<lparr>calibration_factor2 := Fin v\<rparr>
         in st1\<lparr>scale2 := set_scale (calibration_factor2 st1) (scale2 st1)\<rparr>)
      else if cellNumber = 3 then
        (let st1 = st\<lparr>calibration_factor3 := Fin v\<rparr>
         in st1\<lparr>scale3 := set_scale (calibration_factor3 st1) (scale3 st1)\<rparr>)
      else if cellNumber = 4 then
        (let st1 = st\<lparr>calibration_factor4 := Fin v\<rparr>
         in st1\<lparr>scale4 := set_scale (calibration_factor4 st1) (scale4 st1)\<rparr>)
      else st)"

definition handleCommand :: "config \<Rightarrow> env \<Rightarrow> string \<Rightarrow> state \<Rightarrow> state option" where
  \<comment> \<open>\<^verbatim>\<open>checkSerialCommands\<close> after \<^verbatim>\<open>input.trim()\<close>\<close>
  "handleCommand cfg e input st =
     (if length input = 1 then
        (let cmd = input ! 0
         in if cmd = CHR ''z'' then
              map_option (print [Txt ''Tare completed'', EOL])
                (tareScales cfg (tareRd e) (tareMenu e)
                   (print [Txt ''Starting tare process...'', EOL] st))
            else if cmd = CHR ''p'' then Some (toggleContinuousMode st)
            else if cmd = CHR ''s'' then Some (showCalibrationFactors st)
            else if cmd = CHR ''c'' then
              map_option (print [Txt ''Calibration completed and ready for use'', EOL])
                (calibrateCellsViaSerial (toFloat e) (calReads e)
                   (print [Txt ''Starting calibration process...'', EOL] st))
            else if cmd = CHR ''m'' then
              showMainMenu cfg (menuPresses e)
                ((print [Txt ''Showing main menu via serial command'', EOL] st)
                   \<lparr>menuActive := True, menuPosition := 0\<rparr>)
            else if cmd = CHR ''d'' then Some (debugRaw e st)
            else Some (print [Txt ''Command not recognized'', EOL] st))
      else if length input > 3 \<and> take 3 input = ''cf,'' then
        (let commaPos = indexOf CHR '','' input;
             valueStr = substring input (commaPos + 1);
             v = toFloat e valueStr
         in if v > 0 then Some (setCorrectionFactor v st)
            else Some (print [Txt ''Invalid correction factor (must be > 0)'', EOL] st))
      else if length input > 2 \<and> input ! 0 = CHR ''c'' \<and> indexOf CHR '','' input > 0 then
        (let cellNumber = int (of_char (input ! 1)) - int (of_char CHR ''0'')
         in if cellNumber \<ge> 1 \<and> cellNumber \<le> 4 then
              (let commaPos = indexOf CHR '','' input;
                   valueStr = substring input (commaPos + 1);
                   v = toFloat e valueStr
               in if v \<noteq> 0 then
                    Some (print [Txt ''Calibration factor for cell '', IntV cellNumber,
                                 Txt '' set to: '', Num (Fin v), EOL]
                            (setCellFactor cellNumber v st))
                  else Some (print [Txt ''Invalid calibration value'', EOL] st))
            else Some (print [Txt ''Invalid cell number (must be 1-4)'', EOL] st))
      else Some st)"

definition checkSerialCommands :: "config \<Rightarrow> env \<Rightarrow> state \<Rightarrow> state option" where
  "checkSerialCommands cfg e st =
     (if serialIn st \<noteq> [] then
        (let (line, rest) = readStringUntil CHR 0x0A (serialIn st)
         in handleCommand cfg e (trim line) (st\<lparr>serialIn := rest\<rparr>))
      else Some st)"

section \<open>The report, the buttons and the main loop\<close>

definition printSerialData :: "reads \<Rightarrow> state \<Rightarrow> state" where
  "printSerialData rd st =
     (let (a1, a2, a3, a4) = rd
      in print
           ([Txt ''===== MEASUREMENT REPORT ====='', EOL,
             Txt ''Total weight: '', Num (Fin (totalWeight st)), Txt '' kg'', EOL,
             Txt ''Cells [LF, RF, LR, RR]: ['', Num (get_units (scale1 st) a1), Txt '', '',
             Num (get_units (scale2 st) a2), Txt '', '', Num (get_units (scale3 st) a3),
             Txt '', '', Num (get_units (scale4 st) a4), Txt '']'', EOL,
             Txt ''CG X: '', IntV (sint (cogX st)), Txt '' mm from left'', EOL,
             Txt ''CG Y: '', IntV (sint (cogY st)), Txt '' mm from front'', EOL,
             Txt ''Wing CG: '', IntV (sint (wingCogX st)), Txt '' mm'', EOL,
             Txt ''CG %: '', IntV (sint (cogPercentage st)),
             Txt ''% of wing peg distance'', EOL,
             Txt ''Lateral balance: ''] @
            (if 0 <s lateralCogDiff st then [Txt ''+''] else []) @
            [IntV (sint (lateralCogDiff st)), Txt '' mm from center'', EOL,
             Txt ''============================='', EOL])
           st)"

definition checkButtons ::
  "config \<Rightarrow> env \<Rightarrow> bool \<times> bool \<times> bool \<times> bool \<Rightarrow> bool \<Rightarrow> state \<Rightarrow> state option" where
  \<comment> \<open>the four buttons as read, and whether the debounce delay has passed\<close>
  "checkButtons cfg e pressed debounceOver st =
     (let (k1Pressed, k2Pressed, k3Pressed, k4Pressed) = pressed
      in if (k1Pressed \<or> k2Pressed \<or> k3Pressed \<or> k4Pressed) \<and> debounceOver then
           Option.bind
             (if k1Pressed
              then showMainMenu cfg (menuPresses e) (st\<lparr>menuActive := True, menuPosition := 0\<rparr>)
              else Some st)
             (\<lambda>st1. Option.bind
                (if k4Pressed \<and> \<not> menuActive st1
                 then tareScales cfg (tareRd e) (tareMenu e) st1 else Some st1)
                (\<lambda>st2. Some (if k4Pressed \<and> menuActive st2
                              then st2\<lparr>menuActive := False\<rparr> else st2)))
         else Some st)"

record loop_input =
  received :: string           \<comment> \<open>bytes that arrived on the serial port\<close>
  pressed :: "bool \<times> bool \<times> bool \<times> bool"
  debounceOver :: bool
  buttonEnv :: env
  serialEnv :: env
  intervalOver :: bool         \<comment> \<open>\<^verbatim>\<open>currentTime - lastReadTime >= READ_INTERVAL\<close>\<close>
  cycleReads :: reads          \<comment> \<open>the readings of \<^verbatim>\<open>updateWeightData\<close>\<close>
  reportReads :: reads         \<comment> \<open>the readings of \<^verbatim>\<open>printSerialData\<close>\<close>

definition loop :: "config \<Rightarrow> loop_input \<Rightarrow> state \<Rightarrow> state option" where
  "loop cfg inp st =
     Option.bind
       (checkButtons cfg (buttonEnv inp) (pressed inp) (debounceOver inp)
          (st\<lparr>serialIn := serialIn st @ received inp\<rparr>))
       (\<lambda>st1. Option.bind (checkSerialCommands cfg (serialEnv inp) st1)
          (\<lambda>st2. if continuousMode st2 \<and> intervalOver inp then
                   Option.bind (updateWeightData cfg (cycleReads inp) st2)
                     (\<lambda>st3. Some ((printSerialData (reportReads inp) st3)
                                    \<lparr>sampleIndex := (sampleIndex st3 + 1) mod SMOOTHING_SAMPLES\<rparr>))
                 else Some st2))"

definition sketch_setup :: "reads \<Rightarrow> state \<Rightarrow> state" where
  "sketch_setup rd st =
     (let (a1, a2, a3, a4) = rd;
          st1 = print [Txt ''C.o.G. System v2.0 - Initialization...'', EOL,
                       Txt ''Current calibration factors:'', EOL,
                       Txt ''Cell 1: '', Num (calibration_factor1 st), EOL,
                       Txt ''Cell 2: '', Num (calibration_factor2 st), EOL,
                       Txt ''Cell 3: '', Num (calibration_factor3 st), EOL,
                       Txt ''Cell 4: '', Num (calibration_factor4 st), EOL,
                       Txt ''Initializing load cells...'', EOL] st;
          st2 = st1\<lparr>scale1 := set_scale (calibration_factor1 st1) (scale1 st1),
                   scale2 := set_scale (calibration_factor2 st1) (scale2 st1),
                   scale3 := set_scale (calibration_factor3 st1) (scale3 st1),
                   scale4 := set_scale (calibration_factor4 st1) (scale4 st1)\<rparr>;
          st3 = print [Txt ''Initializing display...'', EOL, Txt ''Taring all cells...'', EOL] st2;
          st4 = st3\<lparr>scale1 := tare a1 (scale1 st3), scale2 := tare a2 (scale2 st3),
                   scale3 := tare a3 (scale3 st3), scale4 := tare a4 (scale4 st3),
                   taraEffettuata := True\<rparr>
      in print [Txt ''C.o.G. Measurement System Ready'', EOL,
                Txt ''Available commands:'', EOL,
                Txt ''z - Zero/Tare'', EOL,
                Txt ''p - Pause/Resume continuous reading'', EOL,
                Txt ''s - Show calibration factors'', EOL,
                Txt ''c - Start calibration'', EOL,
                Txt ''d - Debug mode (raw values)'', EOL,
                Txt ''m - Show Main Menu'', EOL,
                Txt ''cf,value - Set correction factor'', EOL,
                Txt ''c1,value - Set calibration for cell 1'', EOL,
                Txt ''Press K1 to access the main menu'', EOL,
                Txt ''System ready - press K1 for menu'', EOL] st4)"

fun run :: "config \<Rightarrow> loop_input list \<Rightarrow> state \<Rightarrow> state option" where
  \<comment> \<open>\<^verbatim>\<open>loop\<close> again and again\<close>
  "run cfg [] st = Some st"
| "run cfg (inp # inps) st = Option.bind (loop cfg inp st) (run cfg inps)"

definition power_on :: "config \<Rightarrow> reads \<Rightarrow> loop_input list \<Rightarrow> state option" where
  \<comment> \<open>the globals as initialised, \<^verbatim>\<open>setup()\<close>, then \<^verbatim>\<open>loop\<close> for each input\<close>
  "power_on cfg rd inps = run cfg inps (sketch_setup rd initial_state)"

section \<open>One window over successive cycles\<close>


section \<open>The CG X line of the report\<close>

text \<open>
  \<open>cgX_reports_zero\<close> holds of a serial output when every token printed right after the
  text \<^verbatim>\<open>CG X: \<close> is the integer 0. \<open>line_ended\<close> holds when the output is empty or ends
  a line. \<open>cogX_inv\<close> is what every reachable state satisfies.
\<close>

fun cgX_reports_zero :: "out list \<Rightarrow> bool" where
  "cgX_reports_zero [] = True"
| "cgX_reports_zero [t] = True"
| "cgX_reports_zero (t # u # ts) =
     ((if t = Txt ''CG X: '' then u = IntV 0 else True) \<and> cgX_reports_zero (u # ts))"

definition line_ended :: "out list \<Rightarrow> bool" where
  "line_ended ts = (ts = [] \<or> last ts = EOL)"

definition cogX_inv :: "state \<Rightarrow> bool" where
  "cogX_inv st = (cogX st = 0 \<and> cgX_reports_zero (serialOut st) \<and> line_ended (serialOut st))"

section \<open>Inputs of the examples\<close>

text \<open>
  \<open>idle_env\<close> is a world in which no reading, press or pin level matters, with a given
  \<^verbatim>\<open>toFloat\<close>. \<open>cycle_input\<close> is a turn of \<^verbatim>\<open>loop\<close> with no button and no byte, the
  read interval over, and the given readings for the cycle and for the report.
\<close>

definition idle_env :: "(string \<Rightarrow> real) \<Rightarrow> env" where
  "idle_env parse = \<lparr>toFloat = parse, tareRd = (0, 0, 0, 0), tareMenu = [], menuPresses = [],
     calReads = \<lparr>tareReads = (0, 0, 0, 0), rawReads = (0, 0, 0, 0), testReads = (0, 0, 0, 0)\<rparr>,
     debugReads = (0, 0, 0, 0), pinLevels = (1, 1, 1, 1), pinNumbers = (16, 17, 19, 18)\<rparr>"

definition cycle_input :: "reads \<Rightarrow> loop_input" where
  "cycle_input rd = \<lparr>received = [], pressed = (False, False, False, False),
     debounceOver = False, buttonEnv = idle_env (\<lambda>s. 0), serialEnv = idle_env (\<lambda>s. 0),
     intervalOver = True, cycleReads = rd, reportReads = rd\<rparr>"

section \<open>Evaluation lemmas\<close>

lemma upt_samples: "[0..<SMOOTHING_SAMPLES] = [0, 1, 2, 3, 4]"
  by (simp add: SMOOTHING_SAMPLES_def upt_rec)

lemma zero_window: "replicate SMOOTHING_SAMPLES 0 = [0, 0, 0, 0, 0]"
  by (simp add: SMOOTHING_SAMPLES_def eval_nat_numeral)

lemma smoothValue_sum:
  "smoothValue v xs i =
     ((xs[i := v] ! 0 + xs[i := v] ! 1 + xs[i := v] ! 2 + xs[i := v] ! 3 + xs[i := v] ! 4) / 5,
      xs[i := v])"
  by (simp add: smoothValue_def upt_samples Let_def) (simp add: SMOOTHING_SAMPLES_def)

lemmas cycle_defs = updateWeightData_def read_units_def get_units_def get_value_def fdiv_def
  weighCells_def smoothValue_sum roundWeightToDecagram_def roundToMillimeter_def
  cround_def computeCoG_def print_def Let_def

lemmas start_defs = initial_state_def zero_window sketch_config_def

lemmas loop_defs = power_on_def loop_def checkButtons_def checkSerialCommands_def
  printSerialData_def sketch_setup_def cycle_input_def idle_env_def set_scale_def tare_def

lemmas calibrate_defs = calibrateCellsViaSerial_def computeFactors_def awaitKnownWeight.simps
  readStringUntil_def set_scale_def tare_def get_value_def get_units_def fdiv_def print_def
  Let_def

section \<open>Insufficient load\<close>

lemma computeCoG_light:
  assumes "totalWeight (computeCoG cfg raws weights st) \<le> 0.01"
  shows "cogX (computeCoG cfg raws weights st) = 0
       \<and> cogY (computeCoG cfg raws weights st) = 0
       \<and> wingCogX (computeCoG cfg raws weights st) = 0
       \<and> lateralCogDiff (computeCoG cfg raws weights st) = 0
       \<and> cogPercentage (computeCoG cfg raws weights st) = 0"
  using assms
  by (cases raws; cases weights)
     (simp add: computeCoG_def print_def Let_def split: if_splits)

text \<open>
  C1. Whenever a cycle of \<^verbatim>\<open>updateWeightData\<close> computes a total weight of at most 0.01 kg,
  the lateral offset, the longitudinal centre of gravity, the wing centre of gravity and
  the percentage are all zero afterwards, whatever they were before.
\<close>

theorem insufficient_load_resets_cog:
  assumes "updateWeightData cfg adc st = Some st'" and "totalWeight st' \<le> 0.01"
  shows "lateralCogDiff st' = 0 \<and> cogY st' = 0 \<and> wingCogX st' = 0 \<and> cogPercentage st' = 0"
  using assms computeCoG_light
  by (auto simp: updateWeightData_def split: option.splits prod.splits)

text \<open>
  An unloaded platform after a measurement: the four outputs hold the values of the last
  load and are zero after the cycle.
\<close>

theorem insufficient_load_resets_cog_witness:
  "sint (lateralCogDiff (initial_state\<lparr>lateralCogDiff := - 4, cogY := 93, wingCogX := 93,
           cogPercentage := 78\<rparr>)) = - 4
   \<and> sint (cogY (initial_state\<lparr>lateralCogDiff := - 4, cogY := 93, wingCogX := 93,
           cogPercentage := 78\<rparr>)) = 93
   \<and> updateWeightData sketch_config (0, 0, 0, 0)
         (initial_state\<lparr>lateralCogDiff := - 4, cogY := 93, wingCogX := 93,
            cogPercentage := 78\<rparr>) \<noteq> None
   \<and> totalWeight (the (updateWeightData sketch_config (0, 0, 0, 0)
         (initial_state\<lparr>lateralCogDiff := - 4, cogY := 93, wingCogX := 93,
            cogPercentage := 78\<rparr>))) \<le> 0.01
   \<and> lateralCogDiff (the (updateWeightData sketch_config (0, 0, 0, 0)
         (initial_state\<lparr>lateralCogDiff := - 4, cogY := 93, wingCogX := 93,
            cogPercentage := 78\<rparr>))) = 0
   \<and> cogY (the (updateWeightData sketch_config (0, 0, 0, 0)
         (initial_state\<lparr>lateralCogDiff := - 4, cogY := 93, wingCogX := 93,
            cogPercentage := 78\<rparr>))) = 0
   \<and> wingCogX (the (updateWeightData sketch_config (0, 0, 0, 0)
         (initial_state\<lparr>lateralCogDiff := - 4, cogY := 93, wingCogX := 93,
            cogPercentage := 78\<rparr>))) = 0
   \<and> cogPercentage (the (updateWeightData sketch_config (0, 0, 0, 0)
         (initial_state\<lparr>lateralCogDiff := - 4, cogY := 93, wingCogX := 93,
            cogPercentage := 78\<rparr>))) = 0"
proof -
  define st where "st = initial_state\<lparr>lateralCogDiff := - 4, cogY := 93, wingCogX := 93,
    cogPercentage := 78\<rparr>"
  have some: "updateWeightData sketch_config (0, 0, 0, 0) st \<noteq> None"
    by (simp add: cycle_defs start_defs st_def)
  have light: "totalWeight (the (updateWeightData sketch_config (0, 0, 0, 0) st)) \<le> 0.01"
    by (simp add: cycle_defs start_defs st_def)
  have run: "updateWeightData sketch_config (0, 0, 0, 0) st
      = Some (the (updateWeightData sketch_config (0, 0, 0, 0) st))"
    using some by simp
  have before: "sint (lateralCogDiff st) = - 4 \<and> sint (cogY st) = 93"
    by (simp add: st_def)
  show ?thesis
    using insufficient_load_resets_cog [OF run light] some light before
    unfolding st_def by simp
qed

section \<open>The scale factors of the calibration\<close>

text \<open>
  C2. When the calibration has its tare command and its known weight, and the four
  captured raw samples (reading minus the offset just tared) do not sum to zero, the
  procedure ends with each calibration factor equal to
  \<open>raw / (raw1 + raw2 + raw3 + raw4) * knownWeight * 4\<close>, and that factor is the scale of
  the channel.
\<close>

theorem calibration_sets_proportional_factors:
  assumes "awaitTare (serialIn st) = Some afterTare"
    and "awaitKnownWeight parse afterTare [] = Some (knownWeight, afterWeight, printed)"
    and "tareReads rds = (t1, t2, t3, t4)" and "rawReads rds = (r1, r2, r3, r4)"
    and "raw1 = real_of_int (r1 - t1)" and "raw2 = real_of_int (r2 - t2)"
    and "raw3 = real_of_int (r3 - t3)" and "raw4 = real_of_int (r4 - t4)"
    and "raw1 + raw2 + raw3 + raw4 \<noteq> 0"
  shows "\<exists>st'. calibrateCellsViaSerial parse rds st = Some st'
    \<and> calibration_factor1 st' = Fin (raw1 / (raw1 + raw2 + raw3 + raw4) * knownWeight * 4)
    \<and> calibration_factor2 st' = Fin (raw2 / (raw1 + raw2 + raw3 + raw4) * knownWeight * 4)
    \<and> calibration_factor3 st' = Fin (raw3 / (raw1 + raw2 + raw3 + raw4) * knownWeight * 4)
    \<and> calibration_factor4 st' = Fin (raw4 / (raw1 + raw2 + raw3 + raw4) * knownWeight * 4)
    \<and> SCALE (scale1 st') = calibration_factor1 st'
    \<and> SCALE (scale2 st') = calibration_factor2 st'
    \<and> SCALE (scale3 st') = calibration_factor3 st'
    \<and> SCALE (scale4 st') = calibration_factor4 st'"
  using assms
  by (cases "testReads rds")
     (simp add: calibrateCellsViaSerial_def Let_def print_def computeFactors_def set_scale_def
        tare_def get_value_def fdiv_def)

theorem calibration_sets_proportional_factors_witness:
  "real_of_int (110 - 10) + real_of_int (220 - 20) + real_of_int (330 - 30)
     + real_of_int (440 - 40) \<noteq> 0
   \<and> calibrateCellsViaSerial (\<lambda>s. if s = ''2'' then 2 else 0)
         \<lparr>tareReads = (10, 20, 30, 40), rawReads = (110, 220, 330, 440),
            testReads = (110, 220, 330, 440)\<rparr>
         (initial_state\<lparr>serialIn := ''t2''\<rparr>) \<noteq> None
   \<and> calibration_factor1 (the (calibrateCellsViaSerial (\<lambda>s. if s = ''2'' then 2 else 0)
         \<lparr>tareReads = (10, 20, 30, 40), rawReads = (110, 220, 330, 440),
            testReads = (110, 220, 330, 440)\<rparr>
         (initial_state\<lparr>serialIn := ''t2''\<rparr>))) = Fin (4 / 5)
   \<and> SCALE (scale1 (the (calibrateCellsViaSerial (\<lambda>s. if s = ''2'' then 2 else 0)
         \<lparr>tareReads = (10, 20, 30, 40), rawReads = (110, 220, 330, 440),
            testReads = (110, 220, 330, 440)\<rparr>
         (initial_state\<lparr>serialIn := ''t2''\<rparr>)))) = Fin (4 / 5)
   \<and> SCALE (scale4 (the (calibrateCellsViaSerial (\<lambda>s. if s = ''2'' then 2 else 0)
         \<lparr>tareReads = (10, 20, 30, 40), rawReads = (110, 220, 330, 440),
            testReads = (110, 220, 330, 440)\<rparr>
         (initial_state\<lparr>serialIn := ''t2''\<rparr>)))) = Fin (16 / 5)"
proof -
  define parse :: "string \<Rightarrow> real" where "parse = (\<lambda>s. if s = ''2'' then 2 else 0)"
  define rds where "rds = \<lparr>tareReads = (10, 20, 30, 40), rawReads = (110, 220, 330, 440),
    testReads = (110, 220, 330, 440)\<rparr>"
  define st where "st = initial_state\<lparr>serialIn := ''t2''\<rparr>"
  have tared: "awaitTare (serialIn st) = Some ''2''"
    by (simp add: st_def)
  have weight: "awaitKnownWeight parse ''2'' []
      = Some (2, [], [Txt ''Weight entered: '', Num (Fin 2), Txt '' kg'', EOL])"
    by (simp add: awaitKnownWeight.simps readStringUntil_def parse_def)
  have sum: "real_of_int (110 - 10) + real_of_int (220 - 20) + real_of_int (330 - 30)
      + real_of_int (440 - 40) \<noteq> 0"
    by simp
  from calibration_sets_proportional_factors [OF tared weight _ _ refl refl refl refl sum,
      of rds]
  obtain st' where "calibrateCellsViaSerial parse rds st = Some st'"
    and "calibration_factor1 st' = Fin (4 / 5)" and "SCALE (scale1 st') = Fin (4 / 5)"
    and "SCALE (scale4 st') = Fin (16 / 5)"
    by (auto simp: rds_def)
  with sum show ?thesis
    unfolding parse_def rds_def st_def by simp
qed

section \<open>A calibration whose raw samples sum to zero\<close>

text \<open>
  The known weight that ends the wait is positive, so with a raw sum of zero every factor
  is an infinity (its raw sample is not zero) or a NaN (it is zero), and so is every scale.
\<close>

lemma awaitKnownWeight_positive:
  "awaitKnownWeight parse s printed = Some (knownWeight, rest, printed') \<Longrightarrow> knownWeight > 0"
proof (induction parse s printed rule: awaitKnownWeight.induct)
  case (1 parse s printed)
  show ?case
  proof (cases "s = []")
    case True
    with "1.prems" show ?thesis
      by (simp add: awaitKnownWeight.simps)
  next
    case False
    obtain input rest0 where r: "readStringUntil CHR 0x0A s = (input, rest0)"
      by (cases "readStringUntil CHR 0x0A s")
    show ?thesis
    proof (cases "parse input > 0")
      case True
      with False r "1.prems" show ?thesis
        by (auto simp: awaitKnownWeight.simps [of parse s] Let_def)
    next
      case neg: False
      with False r "1.prems"
      have "awaitKnownWeight parse rest0 (printed @ [Txt ''Invalid weight. Try again: '', EOL])
          = Some (knownWeight, rest, printed')"
        by (simp add: awaitKnownWeight.simps [of parse s] Let_def)
      with "1.IH" [OF False r [symmetric] refl refl neg] show ?thesis
        by simp
    qed
  qed
qed

lemma zero_sum_factor:
  assumes "knownWeight > 0"
  shows "fmulc (fmulc (fdiv raw 0) knownWeight) 4 = (if raw \<noteq> 0 then Infty else NaN)"
  using assms by (simp add: fdiv_def)

lemma zero_sum_scales_not_finite:
  assumes "awaitTare (serialIn st) = Some afterTare"
    and "awaitKnownWeight parse afterTare [] = Some (knownWeight, afterWeight, printed)"
    and "tareReads rds = (t1, t2, t3, t4)" and "rawReads rds = (r1, r2, r3, r4)"
    and "real_of_int (r1 - t1) + real_of_int (r2 - t2) + real_of_int (r3 - t3)
           + real_of_int (r4 - t4) = 0"
  shows "\<exists>st'. calibrateCellsViaSerial parse rds st = Some st'
    \<and> SCALE (scale1 st') = (if r1 \<noteq> t1 then Infty else NaN)
    \<and> SCALE (scale2 st') = (if r2 \<noteq> t2 then Infty else NaN)
    \<and> SCALE (scale3 st') = (if r3 \<noteq> t3 then Infty else NaN)
    \<and> SCALE (scale4 st') = (if r4 \<noteq> t4 then Infty else NaN)"
proof -
  from assms(2) have "knownWeight > 0"
    by (rule awaitKnownWeight_positive)
  note factor = zero_sum_factor [OF this]
  from assms show ?thesis
    by (cases "testReads rds")
       (simp add: calibrateCellsViaSerial_def Let_def print_def computeFactors_def set_scale_def
          tare_def get_value_def factor)
qed

text \<open>
  C5 asks that a raw sum of zero be detected, reported and the session left without
  touching the scale factors. The sketch divides by the sum unguarded. Here the platform
  is calibrated after \<^verbatim>\<open>setup\<close> with nothing placed on it: the four samples equal the tare
  readings, the operator has sent \<^verbatim>\<open>t\<close> and the weight 2. The procedure runs to its end,
  the four scales, \<open>-411979.59\<close> and so on before, are NaN afterwards, and what it printed
  holds no error.
\<close>

theorem calibration_zero_sum_unguarded:
  "calibrateCellsViaSerial (\<lambda>s. if s = ''2'' then 2 else 0)
       \<lparr>tareReads = (10, 20, 30, 40), rawReads = (10, 20, 30, 40), testReads = (10, 20, 30, 40)\<rparr>
       ((sketch_setup (10, 20, 30, 40) initial_state)\<lparr>serialIn := ''t2''\<rparr>) \<noteq> None
   \<and> SCALE (scale1 ((sketch_setup (10, 20, 30, 40) initial_state)\<lparr>serialIn := ''t2''\<rparr>))
       = Fin (-411979.59)
   \<and> SCALE (scale1 (the (calibrateCellsViaSerial (\<lambda>s. if s = ''2'' then 2 else 0)
       \<lparr>tareReads = (10, 20, 30, 40), rawReads = (10, 20, 30, 40), testReads = (10, 20, 30, 40)\<rparr>
       ((sketch_setup (10, 20, 30, 40) initial_state)\<lparr>serialIn := ''t2''\<rparr>)))) = NaN
   \<and> SCALE (scale2 (the (calibrateCellsViaSerial (\<lambda>s. if s = ''2'' then 2 else 0)
       \<lparr>tareReads = (10, 20, 30, 40), rawReads = (10, 20, 30, 40), testReads = (10, 20, 30, 40)\<rparr>
       ((sketch_setup (10, 20, 30, 40) initial_state)\<lparr>serialIn := ''t2''\<rparr>)))) = NaN
   \<and> SCALE (scale3 (the (calibrateCellsViaSerial (\<lambda>s. if s = ''2'' then 2 else 0)
       \<lparr>tareReads = (10, 20, 30, 40), rawReads = (10, 20, 30, 40), testReads = (10, 20, 30, 40)\<rparr>
       ((sketch_setup (10, 20, 30, 40) initial_state)\<lparr>serialIn := ''t2''\<rparr>)))) = NaN
   \<and> SCALE (scale4 (the (calibrateCellsViaSerial (\<lambda>s. if s = ''2'' then 2 else 0)
       \<lparr>tareReads = (10, 20, 30, 40), rawReads = (10, 20, 30, 40), testReads = (10, 20, 30, 40)\<rparr>
       ((sketch_setup (10, 20, 30, 40) initial_state)\<lparr>serialIn := ''t2''\<rparr>)))) = NaN
   \<and> drop (length (serialOut (sketch_setup (10, 20, 30, 40) initial_state)))
        (serialOut (the (calibrateCellsViaSerial (\<lambda>s. if s = ''2'' then 2 else 0)
       \<lparr>tareReads = (10, 20, 30, 40), rawReads = (10, 20, 30, 40), testReads = (10, 20, 30, 40)\<rparr>
       ((sketch_setup (10, 20, 30, 40) initial_state)\<lparr>serialIn := ''t2''\<rparr>))))
     = [Txt ''=== CALIBRATION PROCEDURE ==='', EOL,
        Txt ''1. Remove all weight from platform'', EOL,
        Txt ''2. Send 't' to tare cells'', EOL,
        Txt ''Taring cells...'', EOL, Txt ''Tare completed.'', EOL,
        Txt ''3. Place a known weight (e.g. 500g) at the center of the platform'', EOL,
        Txt ''4. Enter weight in kg (e.g. 0.500): '', EOL,
        Txt ''Weight entered: '', Num (Fin 2), Txt '' kg'', EOL,
        Txt ''Reading raw values from cells...'', EOL,
        Txt ''Cell 1 raw value: '', Num (Fin 0), EOL,
        Txt ''Cell 2 raw value: '', Num (Fin 0), EOL,
        Txt ''Cell 3 raw value: '', Num (Fin 0), EOL,
        Txt ''Cell 4 raw value: '', Num (Fin 0), EOL,
        Txt ''Calculating calibration factors...'', EOL,
        Txt ''New calibration factors:'', EOL,
        Txt ''Cell 1: '', Num NaN, EOL, Txt ''Cell 2: '', Num NaN, EOL,
        Txt ''Cell 3: '', Num NaN, EOL, Txt ''Cell 4: '', Num NaN, EOL,
        Txt ''Testing calibration with reference weight...'', EOL,
        Txt ''Measured weights after calibration:'', EOL,
        Txt ''Cell 1: '', Num NaN, Txt '' kg'', EOL, Txt ''Cell 2: '', Num NaN, Txt '' kg'', EOL,
        Txt ''Cell 3: '', Num NaN, Txt '' kg'', EOL, Txt ''Cell 4: '', Num NaN, Txt '' kg'', EOL]"
proof -
  define st0 where "st0 = (sketch_setup (10, 20, 30, 40) initial_state)\<lparr>serialIn := ''t2''\<rparr>"
  define st' where "st' = calibrateCellsViaSerial (\<lambda>s. if s = ''2'' then 2 else 0)
       \<lparr>tareReads = (10, 20, 30, 40), rawReads = (10, 20, 30, 40), testReads = (10, 20, 30, 40)\<rparr>
       st0"
  have before: "serialIn st0 = ''t2''" "SCALE (scale1 st0) = Fin (-411979.59)"
    "serialOut st0 = serialOut (sketch_setup (10, 20, 30, 40) initial_state)"
    by (simp_all add: st0_def sketch_setup_def initial_state_def set_scale_def tare_def
          print_def Let_def)
  have some: "st' \<noteq> None"
    by (simp add: st'_def calibrate_defs before)
  have scales: "SCALE (scale1 (the st')) = NaN" "SCALE (scale2 (the st')) = NaN"
    "SCALE (scale3 (the st')) = NaN" "SCALE (scale4 (the st')) = NaN"
    by (simp_all add: st'_def calibrate_defs before)
  have printed: "serialOut (the st') = serialOut st0 @
       [Txt ''=== CALIBRATION PROCEDURE ==='', EOL,
        Txt ''1. Remove all weight from platform'', EOL,
        Txt ''2. Send 't' to tare cells'', EOL,
        Txt ''Taring cells...'', EOL, Txt ''Tare completed.'', EOL,
        Txt ''3. Place a known weight (e.g. 500g) at the center of the platform'', EOL,
        Txt ''4. Enter weight in kg (e.g. 0.500): '', EOL,
        Txt ''Weight entered: '', Num (Fin 2), Txt '' kg'', EOL,
        Txt ''Reading raw values from cells...'', EOL,
        Txt ''Cell 1 raw value: '', Num (Fin 0), EOL,
        Txt ''Cell 2 raw value: '', Num (Fin 0), EOL,
        Txt ''Cell 3 raw value: '', Num (Fin 0), EOL,
        Txt ''Cell 4 raw value: '', Num (Fin 0), EOL,
        Txt ''Calculating calibration factors...'', EOL,
        Txt ''New calibration factors:'', EOL,
        Txt ''Cell 1: '', Num NaN, EOL, Txt ''Cell 2: '', Num NaN, EOL,
        Txt ''Cell 3: '', Num NaN, EOL, Txt ''Cell 4: '', Num NaN, EOL,
        Txt ''Testing calibration with reference weight...'', EOL,
        Txt ''Measured weights after calibration:'', EOL,
        Txt ''Cell 1: '', Num NaN, Txt '' kg'', EOL, Txt ''Cell 2: '', Num NaN, Txt '' kg'', EOL,
        Txt ''Cell 3: '', Num NaN, Txt '' kg'', EOL, Txt ''Cell 4: '', Num NaN, Txt '' kg'', EOL]"
    by (simp add: st'_def calibrate_defs before)
  show ?thesis
    using some scales before(2)
    unfolding printed [unfolded st'_def st0_def] before(3) [unfolded st0_def, symmetric]
      st'_def st0_def
    by simp
qed

section \<open>A calibration with four equal raw samples\<close>

text \<open>
  With four equal raw samples \<open>r\<close> and the known weight 2 every scale becomes 2, and the
  read of the same raw value is \<open>r / 2\<close>: it is 0.5 only for \<open>r = 1\<close>.
\<close>

lemma equal_samples_read_half:
  assumes "awaitTare (serialIn st) = Some afterTare"
    and "awaitKnownWeight parse afterTare [] = Some (2, afterWeight, printed)"
    and "tareReads rds = (t1, t2, t3, t4)" and "rawReads rds = (t1 + r, t2 + r, t3 + r, t4 + r)"
    and "r > 0"
  shows "\<exists>st'. calibrateCellsViaSerial parse rds st = Some st'
    \<and> SCALE (scale1 st') = Fin 2 \<and> SCALE (scale2 st') = Fin 2
    \<and> SCALE (scale3 st') = Fin 2 \<and> SCALE (scale4 st') = Fin 2
    \<and> get_units (scale1 st') (t1 + r) = Fin (real_of_int r / 2)
    \<and> get_units (scale2 st') (t2 + r) = Fin (real_of_int r / 2)
    \<and> get_units (scale3 st') (t3 + r) = Fin (real_of_int r / 2)
    \<and> get_units (scale4 st') (t4 + r) = Fin (real_of_int r / 2)"
  using assms
  by (cases "testReads rds")
     (simp add: calibrateCellsViaSerial_def Let_def print_def computeFactors_def set_scale_def
        tare_def get_value_def get_units_def fdiv_def)

text \<open>
  C7 asks that after a calibration with four equal raw samples \<open>r\<close> and the known weight
  2.0 every channel reads 0.5 kg at the same raw value. With \<open>r = 100000\<close> the sketch sets
  all four scales to 2 (the known weight, not counts per kilogram), and the read of the
  same raw value is 50000 on every channel, which is what its test prints.
\<close>

theorem equal_samples_calibration_misreads:
  "calibrateCellsViaSerial (\<lambda>s. if s = ''2.0'' then 2 else 0)
       \<lparr>tareReads = (10, 20, 30, 40), rawReads = (100010, 100020, 100030, 100040),
          testReads = (100010, 100020, 100030, 100040)\<rparr>
       ((sketch_setup (10, 20, 30, 40) initial_state)\<lparr>serialIn := ''t2.0''\<rparr>) \<noteq> None
   \<and> map (\<lambda>scale. SCALE (scale (the (calibrateCellsViaSerial (\<lambda>s. if s = ''2.0'' then 2 else 0)
       \<lparr>tareReads = (10, 20, 30, 40), rawReads = (100010, 100020, 100030, 100040),
          testReads = (100010, 100020, 100030, 100040)\<rparr>
       ((sketch_setup (10, 20, 30, 40) initial_state)\<lparr>serialIn := ''t2.0''\<rparr>)))))
       [scale1, scale2, scale3, scale4] = [Fin 2, Fin 2, Fin 2, Fin 2]
   \<and> map (\<lambda>(scale, reading). get_units (scale (the (calibrateCellsViaSerial
       (\<lambda>s. if s = ''2.0'' then 2 else 0)
       \<lparr>tareReads = (10, 20, 30, 40), rawReads = (100010, 100020, 100030, 100040),
          testReads = (100010, 100020, 100030, 100040)\<rparr>
       ((sketch_setup (10, 20, 30, 40) initial_state)\<lparr>serialIn := ''t2.0''\<rparr>)))) reading)
       [(scale1, 100010), (scale2, 100020), (scale3, 100030), (scale4, 100040)]
       = [Fin 50000, Fin 50000, Fin 50000, Fin 50000]
   \<and> drop (length (serialOut (sketch_setup (10, 20, 30, 40) initial_state)) + 48)
        (serialOut (the (calibrateCellsViaSerial (\<lambda>s. if s = ''2.0'' then 2 else 0)
       \<lparr>tareReads = (10, 20, 30, 40), rawReads = (100010, 100020, 100030, 100040),
          testReads = (100010, 100020, 100030, 100040)\<rparr>
       ((sketch_setup (10, 20, 30, 40) initial_state)\<lparr>serialIn := ''t2.0''\<rparr>))))
     = [Txt ''Testing calibration with reference weight...'', EOL,
        Txt ''Measured weights after calibration:'', EOL,
        Txt ''Cell 1: '', Num (Fin 50000), Txt '' kg'', EOL,
        Txt ''Cell 2: '', Num (Fin 50000), Txt '' kg'', EOL,
        Txt ''Cell 3: '', Num (Fin 50000), Txt '' kg'', EOL,
        Txt ''Cell 4: '', Num (Fin 50000), Txt '' kg'', EOL]"
proof -
  define st0 where "st0 = (sketch_setup (10, 20, 30, 40) initial_state)\<lparr>serialIn := ''t2.0''\<rparr>"
  define st' where "st' = calibrateCellsViaSerial (\<lambda>s. if s = ''2.0'' then 2 else 0)
       \<lparr>tareReads = (10, 20, 30, 40), rawReads = (100010, 100020, 100030, 100040),
          testReads = (100010, 100020, 100030, 100040)\<rparr> st0"
  have before: "serialIn st0 = ''t2.0''"
    "serialOut st0 = serialOut (sketch_setup (10, 20, 30, 40) initial_state)"
    by (simp_all add: st0_def)
  have some: "st' \<noteq> None"
    by (simp add: st'_def calibrate_defs before(1))
  have scales: "scale1 (the st') = \<lparr>OFFSET = 10, SCALE = Fin 2\<rparr>"
    "scale2 (the st') = \<lparr>OFFSET = 20, SCALE = Fin 2\<rparr>"
    "scale3 (the st') = \<lparr>OFFSET = 30, SCALE = Fin 2\<rparr>"
    "scale4 (the st') = \<lparr>OFFSET = 40, SCALE = Fin 2\<rparr>"
    by (simp_all add: st'_def calibrate_defs before(1))
  have printed: "serialOut (the st') = serialOut st0 @
       [Txt ''=== CALIBRATION PROCEDURE ==='', EOL,
        Txt ''1. Remove all weight from platform'', EOL,
        Txt ''2. Send 't' to tare cells'', EOL,
        Txt ''Taring cells...'', EOL, Txt ''Tare completed.'', EOL,
        Txt ''3. Place a known weight (e.g. 500g) at the center of the platform'', EOL,
        Txt ''4. Enter weight in kg (e.g. 0.500): '', EOL,
        Txt ''Weight entered: '', Num (Fin 2), Txt '' kg'', EOL,
        Txt ''Reading raw values from cells...'', EOL,
        Txt ''Cell 1 raw value: '', Num (Fin 100000), EOL,
        Txt ''Cell 2 raw value: '', Num (Fin 100000), EOL,
        Txt ''Cell 3 raw value: '', Num (Fin 100000), EOL,
        Txt ''Cell 4 raw value: '', Num (Fin 100000), EOL,
        Txt ''Calculating calibration factors...'', EOL,
        Txt ''New calibration factors:'', EOL,
        Txt ''Cell 1: '', Num (Fin 2), EOL, Txt ''Cell 2: '', Num (Fin 2), EOL,
        Txt ''Cell 3: '', Num (Fin 2), EOL, Txt ''Cell 4: '', Num (Fin 2), EOL] @
       [Txt ''Testing calibration with reference weight...'', EOL,
        Txt ''Measured weights after calibration:'', EOL,
        Txt ''Cell 1: '', Num (Fin 50000), Txt '' kg'', EOL,
        Txt ''Cell 2: '', Num (Fin 50000), Txt '' kg'', EOL,
        Txt ''Cell 3: '', Num (Fin 50000), Txt '' kg'', EOL,
        Txt ''Cell 4: '', Num (Fin 50000), Txt '' kg'', EOL]"
    by (simp add: st'_def calibrate_defs before(1))
  have reads: "get_units \<lparr>OFFSET = 10, SCALE = Fin 2\<rparr> 100010 = Fin 50000"
    "get_units \<lparr>OFFSET = 20, SCALE = Fin 2\<rparr> 100020 = Fin 50000"
    "get_units \<lparr>OFFSET = 30, SCALE = Fin 2\<rparr> 100030 = Fin 50000"
    "get_units \<lparr>OFFSET = 40, SCALE = Fin 2\<rparr> 100040 = Fin 50000"
    by (simp_all add: get_units_def get_value_def fdiv_def)
  have "st' \<noteq> None
    \<and> map (\<lambda>scale. SCALE (scale (the st'))) [scale1, scale2, scale3, scale4]
        = [Fin 2, Fin 2, Fin 2, Fin 2]
    \<and> map (\<lambda>(scale, reading). get_units (scale (the st')) reading)
        [(scale1, 100010), (scale2, 100020), (scale3, 100030), (scale4, 100040)]
        = [Fin 50000, Fin 50000, Fin 50000, Fin 50000]
    \<and> drop (length (serialOut st0) + 48) (serialOut (the st'))
      = [Txt ''Testing calibration with reference weight...'', EOL,
        Txt ''Measured weights after calibration:'', EOL,
        Txt ''Cell 1: '', Num (Fin 50000), Txt '' kg'', EOL,
        Txt ''Cell 2: '', Num (Fin 50000), Txt '' kg'', EOL,
        Txt ''Cell 3: '', Num (Fin 50000), Txt '' kg'', EOL,
        Txt ''Cell 4: '', Num (Fin 50000), Txt '' kg'', EOL]"
    using some by (simp add: scales reads printed)
  then show ?thesis
    unfolding before(2) unfolding st'_def st0_def .
qed

section \<open>Symmetric and one-sided loads\<close>






section \<open>Warm-up of the smoothing window\<close>



lemma update_window:
  "[a, b, c, d, e][0 := v] = [v, b, c, d, e]" "[a, b, c, d, e][1 := v] = [a, v, c, d, e]"
  "[a, b, c, d, e][2 := v] = [a, b, v, d, e]" "[a, b, c, d, e][3 := v] = [a, b, c, v, e]"
  "[a, b, c, d, e][4 := v] = [a, b, c, d, v]"
  by (simp_all add: eval_nat_numeral)





section \<open>The end-to-end example\<close>

text \<open>
  The example of the spec, on the power-on windows: raw reads of 100000 counts, scale
  factors of 1000, correction 1. A channel reads \<open>100000 / 1000 = 100\<close>, and the first
  mean over the five slots is 20. The weights are not 0.10 and the total is not 0.40. On
  windows that already hold 100 in every slot the weights are 100.
\<close>

theorem end_to_end_example_counterexample:
  "cellWeights (sketch_config\<lparr>CORRECTION_FACTOR := 1\<rparr>) (100000, 100000, 100000, 100000)
      (initial_state\<lparr>scale1 := \<lparr>OFFSET = 0, SCALE = Fin 1000\<rparr>,
         scale2 := \<lparr>OFFSET = 0, SCALE = Fin 1000\<rparr>,
         scale3 := \<lparr>OFFSET = 0, SCALE = Fin 1000\<rparr>,
         scale4 := \<lparr>OFFSET = 0, SCALE = Fin 1000\<rparr>\<rparr>)
     = Some (20, 20, 20, 20)
   \<and> cellWeights (sketch_config\<lparr>CORRECTION_FACTOR := 1\<rparr>) (100000, 100000, 100000, 100000)
      (initial_state\<lparr>scale1 := \<lparr>OFFSET = 0, SCALE = Fin 1000\<rparr>,
         scale2 := \<lparr>OFFSET = 0, SCALE = Fin 1000\<rparr>,
         scale3 := \<lparr>OFFSET = 0, SCALE = Fin 1000\<rparr>,
         scale4 := \<lparr>OFFSET = 0, SCALE = Fin 1000\<rparr>\<rparr>)
     \<noteq> Some (1 / 10, 1 / 10, 1 / 10, 1 / 10)
   \<and> totalWeight (the (updateWeightData (sketch_config\<lparr>CORRECTION_FACTOR := 1\<rparr>)
        (100000, 100000, 100000, 100000)
      (initial_state\<lparr>scale1 := \<lparr>OFFSET = 0, SCALE = Fin 1000\<rparr>,
         scale2 := \<lparr>OFFSET = 0, SCALE = Fin 1000\<rparr>,
         scale3 := \<lparr>OFFSET = 0, SCALE = Fin 1000\<rparr>,
         scale4 := \<lparr>OFFSET = 0, SCALE = Fin 1000\<rparr>\<rparr>))) = 80
   \<and> totalWeight (the (updateWeightData (sketch_config\<lparr>CORRECTION_FACTOR := 1\<rparr>)
        (100000, 100000, 100000, 100000)
      (initial_state\<lparr>scale1 := \<lparr>OFFSET = 0, SCALE = Fin 1000\<rparr>,
         scale2 := \<lparr>OFFSET = 0, SCALE = Fin 1000\<rparr>,
         scale3 := \<lparr>OFFSET = 0, SCALE = Fin 1000\<rparr>,
         scale4 := \<lparr>OFFSET = 0, SCALE = Fin 1000\<rparr>\<rparr>))) \<noteq> 4 / 10
   \<and> cellWeights (sketch_config\<lparr>CORRECTION_FACTOR := 1\<rparr>) (100000, 100000, 100000, 100000)
      (initial_state\<lparr>scale1 := \<lparr>OFFSET = 0, SCALE = Fin 1000\<rparr>,
         scale2 := \<lparr>OFFSET = 0, SCALE = Fin 1000\<rparr>,
         scale3 := \<lparr>OFFSET = 0, SCALE = Fin 1000\<rparr>,
         scale4 := \<lparr>OFFSET = 0, SCALE = Fin 1000\<rparr>,
         weight1Samples := [100, 100, 100, 100, 100],
         weight2Samples := [100, 100, 100, 100, 100],
         weight3Samples := [100, 100, 100, 100, 100],
         weight4Samples := [100, 100, 100, 100, 100]\<rparr>)
     = Some (100, 100, 100, 100)"
  by (simp add: cellWeights_def cycle_defs start_defs)

lemma first_mean:
  assumes "i < 5"
  shows "fst (smoothValue v [0, 0, 0, 0, 0] i) = v / 5"
proof -
  from assms consider "i = 0" | "i = 1" | "i = 2" | "i = 3" | "i = 4"
    by linarith
  then show ?thesis
    by cases (simp_all add: smoothValue_sum update_window)
qed
text \<open>
  C6, amended. With raw reads of 100000 counts on every channel, offsets 0, scale factors
  1000, correction 1, base width 270 and base length 250, one cycle from zero-filled
  windows gives the weight 20 kg on every channel, the total 80 kg, the lateral offset 0
  and the longitudinal centre of gravity 125.
\<close>

theorem end_to_end_example_first_cycle:
  assumes "CORRECTION_FACTOR cfg = 1" and "BASE_WIDTH cfg = 270" and "BASE_LENGTH cfg = 250"
    and "scale1 st = \<lparr>OFFSET = 0, SCALE = Fin 1000\<rparr>"
    and "scale2 st = \<lparr>OFFSET = 0, SCALE = Fin 1000\<rparr>"
    and "scale3 st = \<lparr>OFFSET = 0, SCALE = Fin 1000\<rparr>"
    and "scale4 st = \<lparr>OFFSET = 0, SCALE = Fin 1000\<rparr>"
    and "weight1Samples st = replicate SMOOTHING_SAMPLES 0"
    and "weight2Samples st = replicate SMOOTHING_SAMPLES 0"
    and "weight3Samples st = replicate SMOOTHING_SAMPLES 0"
    and "weight4Samples st = replicate SMOOTHING_SAMPLES 0"
    and "sampleIndex st < SMOOTHING_SAMPLES"
  shows "cellWeights cfg (100000, 100000, 100000, 100000) st = Some (20, 20, 20, 20)
    \<and> (\<exists>st'. updateWeightData cfg (100000, 100000, 100000, 100000) st = Some st'
          \<and> totalWeight st' = 80 \<and> sint (lateralCogDiff st') = 0 \<and> sint (cogY st') = 125)"
proof -
  have raws: "read_units (100000, 100000, 100000, 100000) st = Some (100, 100, 100, 100)"
    by (simp add: read_units_def get_units_def get_value_def fdiv_def assms)
  from assms(12) have i: "sampleIndex st < 5"
    by (simp add: SMOOTHING_SAMPLES_def)
  have round: "roundWeightToDecagram 20 = 20"
    by (simp add: roundWeightToDecagram_def cround_def)
  have weights: "fst (weighCells cfg 100 100 100 100 st) = (20, 20, 20, 20)"
    by (simp add: weighCells_def split_beta assms zero_window first_mean [OF i] round)
  then obtain st1 where wc: "weighCells cfg 100 100 100 100 st = ((20, 20, 20, 20), st1)"
    by (cases "weighCells cfg 100 100 100 100 st") simp
  have "totalWeight (computeCoG cfg (100, 100, 100, 100) (20, 20, 20, 20) st1) = 80"
    and "sint (lateralCogDiff (computeCoG cfg (100, 100, 100, 100) (20, 20, 20, 20) st1)) = 0"
    and "sint (cogY (computeCoG cfg (100, 100, 100, 100) (20, 20, 20, 20) st1)) = 125"
    by (simp_all add: computeCoG_def print_def Let_def roundToMillimeter_def cround_def assms)
  then show ?thesis
    by (simp add: cellWeights_def updateWeightData_def raws weights wc)
qed

theorem end_to_end_example_first_cycle_witness:
  "CORRECTION_FACTOR (sketch_config\<lparr>CORRECTION_FACTOR := 1\<rparr>) = 1
   \<and> BASE_WIDTH (sketch_config\<lparr>CORRECTION_FACTOR := 1\<rparr>) = 270
   \<and> BASE_LENGTH (sketch_config\<lparr>CORRECTION_FACTOR := 1\<rparr>) = 250
   \<and> sampleIndex (initial_state\<lparr>scale1 := \<lparr>OFFSET = 0, SCALE = Fin 1000\<rparr>,
         scale2 := \<lparr>OFFSET = 0, SCALE = Fin 1000\<rparr>,
         scale3 := \<lparr>OFFSET = 0, SCALE = Fin 1000\<rparr>,
         scale4 := \<lparr>OFFSET = 0, SCALE = Fin 1000\<rparr>\<rparr>) < SMOOTHING_SAMPLES
   \<and> cellWeights (sketch_config\<lparr>CORRECTION_FACTOR := 1\<rparr>) (100000, 100000, 100000, 100000)
      (initial_state\<lparr>scale1 := \<lparr>OFFSET = 0, SCALE = Fin 1000\<rparr>,
         scale2 := \<lparr>OFFSET = 0, SCALE = Fin 1000\<rparr>,
         scale3 := \<lparr>OFFSET = 0, SCALE = Fin 1000\<rparr>,
         scale4 := \<lparr>OFFSET = 0, SCALE = Fin 1000\<rparr>\<rparr>) = Some (20, 20, 20, 20)
   \<and> totalWeight (the (updateWeightData (sketch_config\<lparr>CORRECTION_FACTOR := 1\<rparr>)
        (100000, 100000, 100000, 100000)
        (initial_state\<lparr>scale1 := \<lparr>OFFSET = 0, SCALE = Fin 1000\<rparr>,
           scale2 := \<lparr>OFFSET = 0, SCALE = Fin 1000\<rparr>,
           scale3 := \<lparr>OFFSET = 0, SCALE = Fin 1000\<rparr>,
           scale4 := \<lparr>OFFSET = 0, SCALE = Fin 1000\<rparr>\<rparr>))) = 80
   \<and> sint (cogY (the (updateWeightData (sketch_config\<lparr>CORRECTION_FACTOR := 1\<rparr>)
        (100000, 100000, 100000, 100000)
        (initial_state\<lparr>scale1 := \<lparr>OFFSET = 0, SCALE = Fin 1000\<rparr>,
           scale2 := \<lparr>OFFSET = 0, SCALE = Fin 1000\<rparr>,
           scale3 := \<lparr>OFFSET = 0, SCALE = Fin 1000\<rparr>,
           scale4 := \<lparr>OFFSET = 0, SCALE = Fin 1000\<rparr>\<rparr>)))) = 125"
proof -
  define cfg where "cfg = sketch_config\<lparr>CORRECTION_FACTOR := 1\<rparr>"
  define st where "st = initial_state\<lparr>scale1 := \<lparr>OFFSET = 0, SCALE = Fin 1000\<rparr>,
         scale2 := \<lparr>OFFSET = 0, SCALE = Fin 1000\<rparr>,
         scale3 := \<lparr>OFFSET = 0, SCALE = Fin 1000\<rparr>,
         scale4 := \<lparr>OFFSET = 0, SCALE = Fin 1000\<rparr>\<rparr>"
  have cfg: "CORRECTION_FACTOR cfg = 1" "BASE_WIDTH cfg = 270" "BASE_LENGTH cfg = 250"
    by (simp_all add: cfg_def sketch_config_def)
  have st: "scale1 st = \<lparr>OFFSET = 0, SCALE = Fin 1000\<rparr>"
    "scale2 st = \<lparr>OFFSET = 0, SCALE = Fin 1000\<rparr>"
    "scale3 st = \<lparr>OFFSET = 0, SCALE = Fin 1000\<rparr>"
    "scale4 st = \<lparr>OFFSET = 0, SCALE = Fin 1000\<rparr>"
    "weight1Samples st = replicate SMOOTHING_SAMPLES 0"
    "weight2Samples st = replicate SMOOTHING_SAMPLES 0"
    "weight3Samples st = replicate SMOOTHING_SAMPLES 0"
    "weight4Samples st = replicate SMOOTHING_SAMPLES 0"
    "sampleIndex st < SMOOTHING_SAMPLES"
    by (simp_all add: st_def initial_state_def SMOOTHING_SAMPLES_def)
  from end_to_end_example_first_cycle [OF cfg st]
  have "cellWeights cfg (100000, 100000, 100000, 100000) st = Some (20, 20, 20, 20)
    \<and> totalWeight (the (updateWeightData cfg (100000, 100000, 100000, 100000) st)) = 80
    \<and> sint (cogY (the (updateWeightData cfg (100000, 100000, 100000, 100000) st))) = 125"
    by auto
  with cfg st(9) show ?thesis
    unfolding cfg_def st_def by simp
qed

section \<open>The percentage and the wing-peg span\<close>









section \<open>The command cf\<close>

lemma readStringUntil_line:
  assumes "t \<notin> set line"
  shows "readStringUntil t (line @ t # rest) = (line, rest)"
proof -
  from assms have "\<And>c. c \<in> set line \<Longrightarrow> c \<noteq> t"
    by auto
  then show ?thesis
    by (simp add: readStringUntil_def takeWhile_append2 dropWhile_append2)
qed
text \<open>
  C9. A line of the serial input that reads \<^verbatim>\<open>cf,<value>\<close> once trimmed, whose value
  parses to zero or less, is answered with
  \<^verbatim>\<open>Invalid correction factor (must be > 0)\<close> and changes no calibration factor and no
  channel.
\<close>

theorem nonpositive_correction_factor_rejected:
  assumes "serialIn st = line @ CHR 0x0A # rest" and "CHR 0x0A \<notin> set line"
    and "trim line = ''cf,'' @ valueStr" and "valueStr \<noteq> []" and "toFloat e valueStr \<le> 0"
  shows "\<exists>st'. checkSerialCommands cfg e st = Some st'
    \<and> serialOut st' = serialOut st @ [Txt ''Invalid correction factor (must be > 0)'', EOL]
    \<and> calibration_factor1 st' = calibration_factor1 st \<and> scale1 st' = scale1 st
    \<and> calibration_factor2 st' = calibration_factor2 st \<and> scale2 st' = scale2 st
    \<and> calibration_factor3 st' = calibration_factor3 st \<and> scale3 st' = scale3 st
    \<and> calibration_factor4 st' = calibration_factor4 st \<and> scale4 st' = scale4 st"
proof -
  from assms(4) have long: "length (''cf,'' @ valueStr) > 3" "length (''cf,'' @ valueStr) \<noteq> 1"
    by simp_all
  have "handleCommand cfg e (''cf,'' @ valueStr) (st\<lparr>serialIn := rest\<rparr>)
      = Some (print [Txt ''Invalid correction factor (must be > 0)'', EOL]
                (st\<lparr>serialIn := rest\<rparr>))"
    using assms(5) long by (simp add: handleCommand_def substring_def Let_def)
  then have "checkSerialCommands cfg e st
      = Some (print [Txt ''Invalid correction factor (must be > 0)'', EOL]
                (st\<lparr>serialIn := rest\<rparr>))"
    by (simp add: checkSerialCommands_def assms(1,3) readStringUntil_line [OF assms(2)])
  then show ?thesis
    by (simp add: print_def)
qed

text \<open>The line \<^verbatim>\<open>cf,-1\<close> after \<^verbatim>\<open>setup\<close>.\<close>

theorem nonpositive_correction_factor_rejected_witness:
  "trim ''cf,-1'' = ''cf,'' @ ''-1''
   \<and> toFloat (idle_env (\<lambda>s. if s = ''-1'' then - 1 else 0)) ''-1'' \<le> 0
   \<and> checkSerialCommands sketch_config (idle_env (\<lambda>s. if s = ''-1'' then - 1 else 0))
         ((sketch_setup (0, 0, 0, 0) initial_state)\<lparr>serialIn := ''cf,-1'' @ [CHR 0x0A]\<rparr>)
       \<noteq> None
   \<and> serialOut (the (checkSerialCommands sketch_config
         (idle_env (\<lambda>s. if s = ''-1'' then - 1 else 0))
         ((sketch_setup (0, 0, 0, 0) initial_state)\<lparr>serialIn := ''cf,-1'' @ [CHR 0x0A]\<rparr>)))
       = serialOut (sketch_setup (0, 0, 0, 0) initial_state)
           @ [Txt ''Invalid correction factor (must be > 0)'', EOL]
   \<and> scale1 (the (checkSerialCommands sketch_config
         (idle_env (\<lambda>s. if s = ''-1'' then - 1 else 0))
         ((sketch_setup (0, 0, 0, 0) initial_state)\<lparr>serialIn := ''cf,-1'' @ [CHR 0x0A]\<rparr>)))
       = \<lparr>OFFSET = 0, SCALE = Fin (-411979.59)\<rparr>
   \<and> calibration_factor1 (the (checkSerialCommands sketch_config
         (idle_env (\<lambda>s. if s = ''-1'' then - 1 else 0))
         ((sketch_setup (0, 0, 0, 0) initial_state)\<lparr>serialIn := ''cf,-1'' @ [CHR 0x0A]\<rparr>)))
       = Fin (-411979.59)"
proof -
  define e where "e = idle_env (\<lambda>s. if s = ''-1'' then - 1 else 0)"
  define st where
    "st = (sketch_setup (0, 0, 0, 0) initial_state)\<lparr>serialIn := ''cf,-1'' @ [CHR 0x0A]\<rparr>"
  have input: "serialIn st = ''cf,-1'' @ CHR 0x0A # []" "CHR 0x0A \<notin> set ''cf,-1''"
    "trim ''cf,-1'' = ''cf,'' @ ''-1''" "''-1'' \<noteq> []" "toFloat e ''-1'' \<le> 0"
    by (simp_all add: st_def e_def idle_env_def trim_def isspace_def)
  have before: "serialOut st = serialOut (sketch_setup (0, 0, 0, 0) initial_state)"
    "scale1 st = \<lparr>OFFSET = 0, SCALE = Fin (-411979.59)\<rparr>"
    "calibration_factor1 st = Fin (-411979.59)"
    by (simp_all add: st_def sketch_setup_def initial_state_def set_scale_def tare_def
          print_def Let_def)
  from nonpositive_correction_factor_rejected [OF input, of sketch_config]
  obtain st' where "checkSerialCommands sketch_config e st = Some st'"
    and "serialOut st' = serialOut st @ [Txt ''Invalid correction factor (must be > 0)'', EOL]"
    and "scale1 st' = scale1 st" and "calibration_factor1 st' = calibration_factor1 st"
    by blast
  with input(3,5) before show ?thesis
    unfolding e_def st_def by simp
qed

section \<open>The global cogX\<close>

text \<open>
  The only assignment to \<^verbatim>\<open>cogX\<close>: the branch for a sufficient load leaves it, the other
  branch sets it to 0.
\<close>

lemma computeCoG_cogX:
  "cogX (computeCoG cfg raws (weight1, weight2, weight3, weight4) st)
     = (if weight1 + weight2 + weight3 + weight4 > 0.01 then cogX st else 0)"
  by (cases raws) (simp add: computeCoG_def print_def Let_def)

lemma line_ended_simps [simp]:
  "line_ended [] = True"
  "line_ended (t # ts) = (if ts = [] then t = EOL else line_ended ts)"
  "ts \<noteq> [] \<Longrightarrow> line_ended (xs @ ts) = line_ended ts"
  by (simp_all add: line_ended_def)

lemma cgX_reports_zero_skip [simp]:
  "t \<noteq> Txt ''CG X: '' \<Longrightarrow> cgX_reports_zero (t # ts) = cgX_reports_zero ts"
  by (cases ts) simp_all

lemma cgX_reports_zero_append [simp]:
  "line_ended xs \<Longrightarrow>
     cgX_reports_zero (xs @ ys) = (cgX_reports_zero xs \<and> cgX_reports_zero ys)"
proof (induction xs rule: cgX_reports_zero.induct)
  case 1
  then show ?case by simp
next
  case (2 t)
  then show ?case by (cases ys) (simp_all split: if_splits)
next
  case (3 t u ts)
  then show ?case by (simp split: if_splits)
qed

lemma print_inv:
  "cogX_inv st \<Longrightarrow> cgX_reports_zero ts \<Longrightarrow> line_ended ts \<Longrightarrow> cogX_inv (print ts st)"
  by (cases "ts = []") (simp_all add: cogX_inv_def print_def)

lemma weighCells_inv: "cogX_inv (snd (weighCells cfg r1 r2 r3 r4 st)) = cogX_inv st"
  by (simp add: weighCells_def split_beta Let_def cogX_inv_def)

lemma computeCoG_inv:
  assumes "cogX_inv st"
  shows "cogX_inv (computeCoG cfg raws weights st)"
  using assms
  by (cases raws; cases weights)
     (simp add: computeCoG_def Let_def cogX_inv_def print_def)

lemma updateWeightData_inv:
  assumes "cogX_inv st" and "updateWeightData cfg adc st = Some st'"
  shows "cogX_inv st'"
proof -
  from assms(2) obtain r1 r2 r3 r4 where "read_units adc st = Some (r1, r2, r3, r4)"
    by (auto simp: updateWeightData_def split: option.splits)
  with assms(2) have "st' = computeCoG cfg (r1, r2, r3, r4) (fst (weighCells cfg r1 r2 r3 r4 st))
      (snd (weighCells cfg r1 r2 r3 r4 st))"
    by (simp add: updateWeightData_def split_beta)
  with assms(1) show ?thesis
    by (simp add: computeCoG_inv weighCells_inv)
qed

lemma viewLoop_inv: "cogX_inv st \<Longrightarrow> viewLoop cfg rds st = Some st' \<Longrightarrow> cogX_inv st'"
proof (induction rds arbitrary: st)
  case Nil
  then show ?case by simp
next
  case (Cons rd rds)
  then show ?case
    by (auto simp: bind_eq_Some_conv dest: updateWeightData_inv)
qed

lemma tareCore_inv: "cogX_inv (tareCore rd st) = cogX_inv st"
  by (cases rd) (simp add: tareCore_def cogX_inv_def)

lemma menu_inv:
  "cogX_inv st \<Longrightarrow> showMainMenu cfg presses st = Some st' \<Longrightarrow> cogX_inv st'"
  "cogX_inv st \<Longrightarrow> menuLoop cfg presses st = Some st' \<Longrightarrow> cogX_inv st'"
  "cogX_inv st \<Longrightarrow> tareScales cfg rd nested st = Some st' \<Longrightarrow> cogX_inv st'"
proof (induction cfg presses st and cfg presses st and cfg rd nested st
    arbitrary: st' and st' and st' rule: showMainMenu_menuLoop_tareScales.induct)
  case (1 cfg presses st)
  from "1.prems"(2) obtain s where s: "menuLoop cfg presses (st\<lparr>menuActive := True, menuPosition := 0\<rparr>) = Some s"
    and st': "st' = s\<lparr>menuActive := False\<rparr>"
    by auto
  from "1.prems"(1) have "cogX_inv (st\<lparr>menuActive := True, menuPosition := 0\<rparr>)"
    by (simp add: cogX_inv_def)
  from "1.IH" [OF this s] show ?case
    by (simp add: st' cogX_inv_def)
next
  case (2 cfg st)
  then show ?case by simp
next
  case (3 cfg presses st)
  from "3.prems"(1) have "cogX_inv (st\<lparr>menuPosition :=
      (if menuPosition st > 0 then menuPosition st - 1 else MAIN_MENU_ITEMS - 1)\<rparr>)"
    by (simp add: cogX_inv_def)
  from "3.IH" [OF this] "3.prems"(2) show ?case
    by simp
next
  case (4 cfg presses st)
  from "4.prems"(1)
  have "cogX_inv (st\<lparr>menuPosition := (menuPosition st + 1) mod MAIN_MENU_ITEMS\<rparr>)"
    by (simp add: cogX_inv_def)
  from "4.IH" [OF this] "4.prems"(2) show ?case
    by simp
next
  case (5 cfg rds nested presses st)
  from "5.prems"(2) obtain s where
    s: "(if menuPosition st = 0 then
          (case rds of [] \<Rightarrow> None | rd # _ \<Rightarrow> tareScales cfg rd nested st)
        else if menuPosition st = 1 then viewLoop cfg rds st
        else if menuPosition st = 2 then viewLoop cfg rds st
        else Some st) = Some s"
    and rest: "menuLoop cfg presses s = Some st'"
    by (auto simp: bind_eq_Some_conv)
  have "cogX_inv s"
  proof (cases "menuPosition st = 0")
    case True
    with s obtain rd rds' where "rds = rd # rds'" and "tareScales cfg rd nested st = Some s"
      by (cases rds) auto
    with True "5.IH"(1) "5.prems"(1) show ?thesis
      by blast
  next
    case False
    with s "5.prems"(1) show ?thesis
      by (auto split: if_splits dest: viewLoop_inv)
  qed
  with "5.IH"(2) s rest show ?case
    by blast
next
  case (6 cfg rd nested st)
  from "6.prems"(1) have "cogX_inv ((tareCore rd st)\<lparr>menuActive := True, menuPosition := 0\<rparr>)"
    using tareCore_inv [of rd st] by (simp add: cogX_inv_def)
  with "6.IH" "6.prems"(2) show ?case
    by simp
qed

lemma awaitKnownWeight_printed:
  "awaitKnownWeight parse s printed = Some (knownWeight, rest, printed') \<Longrightarrow>
     cgX_reports_zero printed \<Longrightarrow> line_ended printed \<Longrightarrow>
     cgX_reports_zero printed' \<and> line_ended printed'"
proof (induction parse s printed rule: awaitKnownWeight.induct)
  case (1 parse s printed)
  show ?case
  proof (cases "s = []")
    case True
    with "1.prems"(1) show ?thesis
      by (simp add: awaitKnownWeight.simps)
  next
    case False
    obtain input rest0 where r: "readStringUntil CHR 0x0A s = (input, rest0)"
      by (cases "readStringUntil CHR 0x0A s")
    show ?thesis
    proof (cases "parse input > 0")
      case True
      with False r "1.prems" show ?thesis
        by (auto simp: awaitKnownWeight.simps [of parse s] Let_def)
    next
      case neg: False
      with False r "1.prems"(1)
      have again: "awaitKnownWeight parse rest0
          (printed @ [Txt ''Invalid weight. Try again: '', EOL])
          = Some (knownWeight, rest, printed')"
        by (simp add: awaitKnownWeight.simps [of parse s] Let_def)
      from "1.prems"(2,3)
      have "cgX_reports_zero (printed @ [Txt ''Invalid weight. Try again: '', EOL])"
        and "line_ended (printed @ [Txt ''Invalid weight. Try again: '', EOL])"
        by simp_all
      with "1.IH" [OF False r [symmetric] refl refl neg again] show ?thesis
        by simp
    qed
  qed
qed

lemma computeFactors_inv:
  "cogX_inv st \<Longrightarrow> cogX_inv (computeFactors raw1 raw2 raw3 raw4 knownWeight st)"
  by (simp add: computeFactors_def Let_def cogX_inv_def print_def)

lemma awaitKnownWeight_from_empty:
  assumes "awaitKnownWeight parse s [] = Some (knownWeight, rest, printed)"
  shows "cgX_reports_zero printed \<and> line_ended printed"
  using awaitKnownWeight_printed [OF assms] by simp

lemma calibrate_inv:
  assumes "cogX_inv st" and "calibrateCellsViaSerial parse rds st = Some st'"
  shows "cogX_inv st'"
  using assms
  by (auto simp: calibrateCellsViaSerial_def Let_def bind_eq_Some_conv split_beta print_def
        computeFactors_def cogX_inv_def dest!: awaitKnownWeight_from_empty)

lemma command_inv:
  "cogX_inv st \<Longrightarrow> cogX_inv (toggleContinuousMode st)"
  "cogX_inv st \<Longrightarrow> cogX_inv (showCalibrationFactors st)"
  "cogX_inv st \<Longrightarrow> cogX_inv (setCorrectionFactor v st)"
  "cogX_inv st \<Longrightarrow> cogX_inv (debugRaw e st)"
  "cogX_inv st \<Longrightarrow> cogX_inv (setCellFactor n v st)"
  by (simp_all add: toggleContinuousMode_def showCalibrationFactors_def setCorrectionFactor_def
        debugRaw_def setCellFactor_def Let_def split_beta print_def cogX_inv_def)

lemma handleCommand_inv:
  assumes "cogX_inv st" and "handleCommand cfg e input st = Some st'"
  shows "cogX_inv st'"
proof -
  have printed: "cogX_inv (print [Txt s, EOL] st0)" if "cogX_inv st0" "s \<noteq> ''CG X: ''" for s st0
    using that by (intro print_inv) simp_all
  have menu: "cogX_inv ((print [Txt s, EOL] st)\<lparr>menuActive := True, menuPosition := 0\<rparr>)"
    if "s \<noteq> ''CG X: ''" for s
    using printed [OF assms(1) that] by (simp add: cogX_inv_def)
  have cell: "cogX_inv (print [Txt ''Calibration factor for cell '', IntV n, Txt '' set to: '',
      Num (Fin v), EOL] (setCellFactor n v st))" for n v
    using command_inv(5) [OF assms(1)] by (intro print_inv) simp_all
  from assms show ?thesis
    by (auto simp: handleCommand_def Let_def command_inv printed cell
          simp del: showMainMenu.simps tareScales.simps
          split: if_splits
          dest!: menu_inv(3) [rotated] calibrate_inv [rotated] menu_inv(1) [rotated]
          intro!: printed menu)
qed

lemma checkSerialCommands_inv:
  assumes "cogX_inv st" and "checkSerialCommands cfg e st = Some st'"
  shows "cogX_inv st'"
proof (cases "serialIn st = []")
  case True
  with assms show ?thesis
    by (simp add: checkSerialCommands_def)
next
  case False
  obtain line rest where r: "readStringUntil CHR 0x0A (serialIn st) = (line, rest)"
    by (cases "readStringUntil CHR 0x0A (serialIn st)")
  from assms(1) have "cogX_inv (st\<lparr>serialIn := rest\<rparr>)"
    by (simp add: cogX_inv_def)
  moreover from assms(2) False r
  have "handleCommand cfg e (trim line) (st\<lparr>serialIn := rest\<rparr>) = Some st'"
    by (simp add: checkSerialCommands_def)
  ultimately show ?thesis
    by (rule handleCommand_inv)
qed

lemma printSerialData_inv: "cogX_inv st \<Longrightarrow> cogX_inv (printSerialData rd st)"
  by (cases rd) (simp add: printSerialData_def cogX_inv_def print_def)

lemma checkButtons_inv:
  assumes "cogX_inv st" and "checkButtons cfg e ks over st = Some st'"
  shows "cogX_inv st'"
proof -
  have flag: "cogX_inv (s\<lparr>menuActive := b\<rparr>) = cogX_inv s"
    and menu: "cogX_inv (s\<lparr>menuActive := b, menuPosition := n\<rparr>) = cogX_inv s" for s b n
    by (simp_all add: cogX_inv_def)
  obtain k1 k2 k3 k4 where k: "ks = (k1, k2, k3, k4)"
    by (cases ks) auto
  from assms show ?thesis
    by (auto simp: checkButtons_def k bind_eq_Some_conv flag menu
          simp del: showMainMenu.simps tareScales.simps
          split: if_splits dest!: menu_inv(1) [rotated] menu_inv(3) [rotated])
qed

lemma loop_inv:
  assumes "cogX_inv st" and "loop cfg inp st = Some st'"
  shows "cogX_inv st'"
proof -
  from assms(1) have start: "cogX_inv (st\<lparr>serialIn := serialIn st @ received inp\<rparr>)"
    by (simp add: cogX_inv_def)
  from assms(2) obtain st1 st2
    where "checkButtons cfg (buttonEnv inp) (pressed inp) (debounceOver inp)
             (st\<lparr>serialIn := serialIn st @ received inp\<rparr>) = Some st1"
      and "checkSerialCommands cfg (serialEnv inp) st1 = Some st2"
      and last: "(if continuousMode st2 \<and> intervalOver inp then
                   Option.bind (updateWeightData cfg (cycleReads inp) st2)
                     (\<lambda>st3. Some ((printSerialData (reportReads inp) st3)
                                    \<lparr>sampleIndex := (sampleIndex st3 + 1) mod SMOOTHING_SAMPLES\<rparr>))
                 else Some st2) = Some st'"
    by (auto simp: loop_def bind_eq_Some_conv)
  with start have st2: "cogX_inv st2"
    by (blast intro: checkButtons_inv checkSerialCommands_inv)
  show ?thesis
  proof (cases "continuousMode st2 \<and> intervalOver inp")
    case False
    with last st2 show ?thesis by simp
  next
    case True
    with last obtain st3 where "updateWeightData cfg (cycleReads inp) st2 = Some st3"
      and st': "st' = (printSerialData (reportReads inp) st3)
                 \<lparr>sampleIndex := (sampleIndex st3 + 1) mod SMOOTHING_SAMPLES\<rparr>"
      by (auto simp: bind_eq_Some_conv)
    with st2 have "cogX_inv (printSerialData (reportReads inp) st3)"
      by (blast intro: updateWeightData_inv printSerialData_inv)
    then show ?thesis
      by (simp add: st' cogX_inv_def)
  qed
qed

lemma run_inv: "cogX_inv st \<Longrightarrow> run cfg inps st = Some st' \<Longrightarrow> cogX_inv st'"
proof (induction inps arbitrary: st)
  case Nil
  then show ?case by simp
next
  case (Cons inp inps)
  then show ?case
    by (auto simp: bind_eq_Some_conv dest: loop_inv)
qed

lemma sketch_setup_inv: "cogX_inv (sketch_setup rd initial_state)"
  by (cases rd) (simp add: sketch_setup_def initial_state_def Let_def print_def cogX_inv_def)
text \<open>
  C10. After power-on, whatever the buttons, the serial input and the channels do,
  \<^verbatim>\<open>cogX\<close> is zero, and every \<^verbatim>\<open>CG X: \<close> printed so far is followed by 0. No operation
  writes \<^verbatim>\<open>cogX\<close> but the branch of \<^verbatim>\<open>updateWeightData\<close> for an insufficient load, which
  sets it to 0.
\<close>

theorem cogX_is_always_zero:
  assumes "power_on cfg rd inps = Some st"
  shows "cogX st = 0 \<and> cgX_reports_zero (serialOut st)"
  using run_inv [OF sketch_setup_inv] assms
  by (auto simp: power_on_def cogX_inv_def)

text \<open>
  A load on the two right-hand channels only: the lateral offset is 135 mm, and the
  report still prints 0 for CG X.
\<close>

theorem cogX_is_always_zero_witness:
  "power_on sketch_config (0, 0, 0, 0) [cycle_input (0, - 475432, 0, - 1067724)] \<noteq> None
   \<and> sint (lateralCogDiff (the (power_on sketch_config (0, 0, 0, 0)
         [cycle_input (0, - 475432, 0, - 1067724)]))) = 135
   \<and> Txt ''CG X: '' \<in> set (serialOut (the (power_on sketch_config (0, 0, 0, 0)
         [cycle_input (0, - 475432, 0, - 1067724)])))
   \<and> cogX (the (power_on sketch_config (0, 0, 0, 0)
         [cycle_input (0, - 475432, 0, - 1067724)])) = 0
   \<and> cgX_reports_zero (serialOut (the (power_on sketch_config (0, 0, 0, 0)
         [cycle_input (0, - 475432, 0, - 1067724)])))"
proof -
  let ?run = "power_on sketch_config (0, 0, 0, 0) [cycle_input (0, - 475432, 0, - 1067724)]"
  have some: "?run \<noteq> None"
    by (simp add: loop_defs cycle_defs start_defs)
  then have run: "?run = Some (the ?run)"
    by simp
  have right: "sint (lateralCogDiff (the ?run)) = 135"
    by (simp add: loop_defs cycle_defs start_defs)
  have report: "Txt ''CG X: '' \<in> set (serialOut (the ?run))"
    by (simp add: loop_defs cycle_defs start_defs)
  from cogX_is_always_zero [OF run] some right report show ?thesis
    by (intro conjI) simp_all
qed

end
